theory Spec2Isabelle
  imports Complex_Main "HOL-Library.Char_ord" "HOL-Library.List_Lexorder"
begin

section \<open>Data model\<close>

text \<open>
  The enumerations of \<^verbatim>\<open>models/base.py\<close>. The member \<^verbatim>\<open>PENDING\<close> of
  \<^verbatim>\<open>ItemStatus\<close> is written \<open>ITEM_PENDING\<close>, since \<^verbatim>\<open>ETLStatus\<close> has a member of
  the same name.
\<close>

datatype SourceType = API | CSV | RSS | FEED

datatype ETLStatus = PENDING | RUNNING | SUCCESS | FAILED | PARTIAL

datatype ItemStatus = ACTIVE | INACTIVE | DELETED | ITEM_PENDING

text \<open>
  Raw payloads are JSON documents (\<^verbatim>\<open>Dict[str, Any]\<close>). An object keeps its members as
  an association list in document order. Floats are carried as rationals: the pipeline
  only stores them and compares them with the bounds 0 and 5.
\<close>

datatype json =
    JNull
  | JBool bool
  | JInt int
  | JFloat rat
  | JStr string
  | JList "json list"
  | JObj "(string \<times> json) list"

text \<open>An instant (\<^verbatim>\<open>datetime\<close>), in seconds on the clock of \<^verbatim>\<open>datetime.utcnow()\<close>.\<close>

type_synonym datetime = rat

subsection \<open>The normalized item and the unified table\<close>

text \<open>
  \<^verbatim>\<open>schemas/normalized.py\<close>, class \<^verbatim>\<open>UnifiedItemCreate\<close>, as a validated value. The
  fields carry the prefix \<open>c_\<close>; the rows of \<^verbatim>\<open>unified_items\<close> carry \<open>u_\<close>.
\<close>

record UnifiedItemCreate =
  c_source_type :: SourceType
  c_source_name :: string
  c_external_id :: string
  c_raw_data_id :: int
  c_title :: string
  c_description :: "string option"
  c_category :: "string option"
  c_url :: "string option"
  c_image_url :: "string option"
  c_author :: "string option"
  c_amount :: "rat option"
  c_quantity :: "int option"
  c_rating :: "rat option"
  c_tags :: "string list"
  c_extra_metadata :: "(string \<times> json) list"
  c_status :: ItemStatus
  c_published_at :: "datetime option"

text \<open>
  \<^verbatim>\<open>models/normalized_data.py\<close>, class \<^verbatim>\<open>UnifiedItem\<close>. The surrogate columns
  \<^verbatim>\<open>id\<close> and \<^verbatim>\<open>uuid\<close> are generated by the database and never read by the pipeline;
  \<^verbatim>\<open>deleted_at\<close> and \<^verbatim>\<open>search_vector\<close> are never written by it. The row model
  leaves these four out and keeps every column the loader writes.
\<close>

record UnifiedItem =
  u_source_type :: SourceType
  u_source_name :: string
  u_external_id :: string
  u_raw_data_id :: "int option"
  u_title :: string
  u_description :: "string option"
  u_category :: "string option"
  u_url :: "string option"
  u_image_url :: "string option"
  u_author :: "string option"
  u_amount :: "rat option"
  u_quantity :: "int option"
  u_rating :: "rat option"
  u_tags :: "string list"
  u_extra_metadata :: "(string \<times> json) list"
  u_status :: ItemStatus
  u_published_at :: "datetime option"
  u_created_at :: datetime
  u_updated_at :: datetime
  u_etl_run_id :: "int option"

section \<open>The loader: \<^verbatim>\<open>ingestion/loaders/postgres_loader.py\<close>\<close>

text \<open>
  The unique index \<^verbatim>\<open>idx_unified_source_external\<close>, which is the conflict target
  \<^verbatim>\<open>index_elements=["source_type", "source_name", "external_id"]\<close>.
\<close>

type_synonym natural_key = "SourceType \<times> string \<times> string"

definition item_key :: "UnifiedItemCreate \<Rightarrow> natural_key" where
  "item_key item = (c_source_type item, c_source_name item, c_external_id item)"

definition row_key :: "UnifiedItem \<Rightarrow> natural_key" where
  "row_key row = (u_source_type row, u_source_name row, u_external_id row)"

text \<open>
  \<^verbatim>\<open>if etl_run_id: item_dict["etl_run_id"] = etl_run_id\<close>: the run id is part of the
  statement only when it is truthy, so \<^verbatim>\<open>None\<close> and \<^verbatim>\<open>0\<close> both leave the column to
  its default, NULL.
\<close>

definition stmt_run_id :: "int option \<Rightarrow> int option" where
  "stmt_run_id etl_run_id =
     (case etl_run_id of None \<Rightarrow> None | Some n \<Rightarrow> if n = 0 then None else Some n)"

text \<open>
  The row proposed for insertion by \<^verbatim>\<open>insert(UnifiedItem).values(**item_dict)\<close>. The
  columns \<^verbatim>\<open>created_at\<close> and \<^verbatim>\<open>updated_at\<close> are not in the statement's values and
  take their column default \<^verbatim>\<open>datetime.utcnow\<close>, read here as \<open>now\<close>.
\<close>

definition excluded :: "UnifiedItemCreate \<Rightarrow> int option \<Rightarrow> datetime \<Rightarrow> UnifiedItem" where
  "excluded item etl_run_id now =
     \<lparr> u_source_type = c_source_type item,
       u_source_name = c_source_name item,
       u_external_id = c_external_id item,
       u_raw_data_id = Some (c_raw_data_id item),
       u_title = c_title item,
       u_description = c_description item,
       u_category = c_category item,
       u_url = c_url item,
       u_image_url = c_image_url item,
       u_author = c_author item,
       u_amount = c_amount item,
       u_quantity = c_quantity item,
       u_rating = c_rating item,
       u_tags = c_tags item,
       u_extra_metadata = c_extra_metadata item,
       u_status = c_status item,
       u_published_at = c_published_at item,
       u_created_at = now,
       u_updated_at = now,
       u_etl_run_id = stmt_run_id etl_run_id \<rparr>"

text \<open>
  \<^verbatim>\<open>on_conflict_do_update(..., set_={...})\<close>: the fifteen columns of \<^verbatim>\<open>set_\<close> take
  the value of the proposed row; the key columns, \<^verbatim>\<open>raw_data_id\<close> and
  \<^verbatim>\<open>created_at\<close> keep the value of the existing row.
\<close>

definition on_conflict_do_update :: "UnifiedItem \<Rightarrow> UnifiedItem \<Rightarrow> UnifiedItem" where
  "on_conflict_do_update ex row =
     row \<lparr> u_title := u_title ex,
           u_description := u_description ex,
           u_category := u_category ex,
           u_url := u_url ex,
           u_image_url := u_image_url ex,
           u_author := u_author ex,
           u_amount := u_amount ex,
           u_quantity := u_quantity ex,
           u_rating := u_rating ex,
           u_tags := u_tags ex,
           u_extra_metadata := u_extra_metadata ex,
           u_status := u_status ex,
           u_published_at := u_published_at ex,
           u_updated_at := u_updated_at ex,
           u_etl_run_id := u_etl_run_id ex \<rparr>"

text \<open>One \<^verbatim>\<open>INSERT ... ON CONFLICT DO UPDATE\<close> statement on the table.\<close>

definition upsert :: "UnifiedItem \<Rightarrow> UnifiedItem list \<Rightarrow> UnifiedItem list" where
  "upsert ex rows =
     (if row_key ex \<in> set (map row_key rows)
      then map (\<lambda>row. if row_key row = row_key ex then on_conflict_do_update ex row else row) rows
      else rows @ [ex])"

text \<open>
  The loop of \<^verbatim>\<open>PostgresLoader.load\<close>: one statement per item, counting each one.
  The accumulator is the pair of \<^verbatim>\<open>loaded_count\<close> and the table.
\<close>

fun load_loop ::
  "UnifiedItemCreate list \<Rightarrow> int option \<Rightarrow> datetime \<Rightarrow> nat \<times> UnifiedItem list
     \<Rightarrow> nat \<times> UnifiedItem list" where
  "load_loop [] etl_run_id now acc = acc"
| "load_loop (item # items) etl_run_id now (loaded_count, rows) =
     load_loop items etl_run_id now
       (loaded_count + 1, upsert (excluded item etl_run_id now) rows)"

text \<open>
  \<^verbatim>\<open>PostgresLoader.load(items, etl_run_id)\<close> on the table \<open>rows\<close>, with \<open>now\<close> the clock
  reading of the call. It returns the count and the committed table.
\<close>

definition load ::
  "UnifiedItemCreate list \<Rightarrow> int option \<Rightarrow> datetime \<Rightarrow> UnifiedItem list
     \<Rightarrow> nat \<times> UnifiedItem list" where
  "load items etl_run_id now rows =
     (if items = [] then (0, rows) else load_loop items etl_run_id now (0, rows))"

section \<open>The Python runtime\<close>

text \<open>
  The exception classes of \<^verbatim>\<open>core/exceptions.py\<close>, the built-in ones the pipeline
  catches by name, pydantic's validation error and the three httpx exceptions the API
  client tells apart.
\<close>

datatype exn_class =
    Exception | ValueError | TypeError | OverflowError
  | PydanticValidationError
  | HttpxTimeoutException | HttpxNetworkError | HttpxHTTPStatusError
  | ETLException
  | ExtractionError | APIExtractionError | CSVExtractionError | RSSExtractionError
  | TransformationError | ValidationError | NormalizationError
  | LoadError | DatabaseError | UpsertError
  | CheckpointError
  | RetryableError | NonRetryableError
  | NetworkError | RateLimitError | DatabaseConnectionError | DeadlockError
  | AuthenticationError | SchemaValidationError | DataFormatError | ResourceNotFoundError

datatype ctx_value = CStr string | CInt int | CNum rat

text \<open>
  An exception value: its class, \<^verbatim>\<open>message\<close>, \<^verbatim>\<open>context\<close> and
  \<^verbatim>\<open>original_exception\<close>. The entry \<^verbatim>\<open>error_timestamp\<close> that
  \<^verbatim>\<open>ETLException.__init__\<close> adds to every context is not kept.
\<close>

datatype exn =
  Exn (e_class: exn_class) (e_message: string)
      (e_context: "(string \<times> ctx_value) list") (e_original: "exn option")

text \<open>\<^verbatim>\<open>isinstance(e, ExtractionError)\<close>, read off the class statements.\<close>

definition is_ExtractionError :: "exn \<Rightarrow> bool" where
  "is_ExtractionError e \<longleftrightarrow>
     e_class e \<in> {ExtractionError, APIExtractionError, CSVExtractionError, RSSExtractionError,
                  NetworkError, RateLimitError, AuthenticationError, ResourceNotFoundError}"

text \<open>\<^verbatim>\<open>isinstance(e, RetryableError)\<close>.\<close>

definition is_RetryableError :: "exn \<Rightarrow> bool" where
  "is_RetryableError e \<longleftrightarrow>
     e_class e \<in> {RetryableError, NetworkError, RateLimitError, DatabaseConnectionError,
                  DeadlockError}"

text \<open>\<^verbatim>\<open>isinstance(e, (AuthenticationError, ResourceNotFoundError))\<close>.\<close>

definition is_auth_or_not_found :: "exn \<Rightarrow> bool" where
  "is_auth_or_not_found e \<longleftrightarrow> e_class e \<in> {AuthenticationError, ResourceNotFoundError}"

text \<open>
  Library functions whose result the source only passes on. They are parameters of the
  model: \<^verbatim>\<open>float(v)\<close> and \<^verbatim>\<open>int(x)\<close> with the class of the exception they
  raise, \<^verbatim>\<open>str(v)\<close> of a value that is not a string, \<^verbatim>\<open>datetime.fromisoformat\<close>
  (\<open>None\<close> when it raises), \<^verbatim>\<open>datetime.isoformat\<close>, pydantic's coercion of a value
  that is neither a string nor \<^verbatim>\<open>None\<close> to a \<^verbatim>\<open>str\<close> field (\<open>None\<close> when it is
  refused), and \<^verbatim>\<open>str(e)\<close> of an exception.
\<close>

record runtime =
  rt_float :: "json \<Rightarrow> exn_class + rat"
  rt_int :: "rat \<Rightarrow> exn_class + int"
  rt_repr :: "json \<Rightarrow> string"
  rt_fromisoformat :: "string \<Rightarrow> datetime option"
  rt_isoformat :: "datetime \<Rightarrow> string"
  rt_coerce_str :: "json \<Rightarrow> string option"
  rt_str_exn :: "exn \<Rightarrow> string"

type_synonym payload = "(string \<times> json) list"

text \<open>\<^verbatim>\<open>record.get(key, default)\<close>; a dictionary holds each key once.\<close>

definition dict_get :: "payload \<Rightarrow> string \<Rightarrow> json \<Rightarrow> json" where
  "dict_get rec k dflt = (case map_of rec k of Some v \<Rightarrow> v | None \<Rightarrow> dflt)"

text \<open>Truth value of a JSON value, as \<^verbatim>\<open>if v:\<close> and \<^verbatim>\<open>a or b\<close> test it.\<close>

fun truthy :: "json \<Rightarrow> bool" where
  "truthy JNull = False"
| "truthy (JBool b) = b"
| "truthy (JInt i) = (i \<noteq> 0)"
| "truthy (JFloat x) = (x \<noteq> 0)"
| "truthy (JStr s) = (s \<noteq> [])"
| "truthy (JList xs) = (xs \<noteq> [])"
| "truthy (JObj kvs) = (kvs \<noteq> [])"

definition py_or :: "json \<Rightarrow> json \<Rightarrow> json" where
  "py_or a b = (if truthy a then a else b)"

definition py_str :: "runtime \<Rightarrow> json \<Rightarrow> string" where
  "py_str rt v = (case v of JStr s \<Rightarrow> s | _ \<Rightarrow> rt_repr rt v)"

text \<open>
  \<^verbatim>\<open>str.strip()\<close> and \<^verbatim>\<open>str.split(",")\<close>. Whitespace is the ASCII whitespace of
  Python: space, the controls 9 to 13 and 28 to 31.
\<close>

definition is_space :: "char \<Rightarrow> bool" where
  "is_space c \<longleftrightarrow>
     c \<in> {CHR '' '', CHR 0x09, CHR 0x0A, CHR 0x0B, CHR 0x0C, CHR 0x0D,
          CHR 0x1C, CHR 0x1D, CHR 0x1E, CHR 0x1F}"

definition strip :: "string \<Rightarrow> string" where
  "strip s = rev (dropWhile is_space (rev (dropWhile is_space s)))"

fun split_on :: "char \<Rightarrow> string \<Rightarrow> string list" where
  "split_on sep [] = [[]]"
| "split_on sep (c # cs) =
     (if c = sep then [] # split_on sep cs
      else (case split_on sep cs of [] \<Rightarrow> [[c]] | w # ws \<Rightarrow> (c # w) # ws))"

text \<open>\<^verbatim>\<open>[t.strip() for t in s.split(",") if t.strip()]\<close>\<close>

definition split_tags :: "string \<Rightarrow> string list" where
  "split_tags s = filter (\<lambda>t. t \<noteq> []) (map strip (split_on (CHR '','') s))"

text \<open>\<^verbatim>\<open>s.replace("Z", "+00:00")\<close>\<close>

definition replace_Z :: "string \<Rightarrow> string" where
  "replace_Z s = concat (map (\<lambda>c. if c = CHR ''Z'' then ''+00:00'' else [c]) s)"

section \<open>The normalizer: \<^verbatim>\<open>ingestion/transformers/normalizer.py\<close>\<close>

text \<open>
  \<^verbatim>\<open>_parse_float\<close>, \<^verbatim>\<open>_parse_int\<close> and \<^verbatim>\<open>_parse_datetime\<close> (Isabelle names do
  not start with an underscore). The first two catch \<^verbatim>\<open>ValueError\<close> and
  \<^verbatim>\<open>TypeError\<close> only; any other exception of the conversion leaves the function.
\<close>

definition parse_float :: "runtime \<Rightarrow> json \<Rightarrow> exn + rat option" where
  "parse_float rt v =
     (if v = JNull \<or> v = JStr [] then Inr None
      else (case rt_float rt v of
              Inr x \<Rightarrow> Inr (Some x)
            | Inl c \<Rightarrow> if c = ValueError \<or> c = TypeError then Inr None
                        else Inl (Exn c [] [] None)))"

definition parse_int :: "runtime \<Rightarrow> json \<Rightarrow> exn + int option" where
  "parse_int rt v =
     (if v = JNull \<or> v = JStr [] then Inr None
      else (case rt_float rt v of
              Inl c \<Rightarrow> if c = ValueError \<or> c = TypeError then Inr None
                        else Inl (Exn c [] [] None)
            | Inr x \<Rightarrow>
                (case rt_int rt x of
                   Inr n \<Rightarrow> Inr (Some n)
                 | Inl c \<Rightarrow> if c = ValueError \<or> c = TypeError then Inr None
                             else Inl (Exn c [] [] None))))"

definition parse_datetime :: "runtime \<Rightarrow> json \<Rightarrow> datetime option" where
  "parse_datetime rt v =
     (if v = JNull \<or> v = JStr [] then None
      else rt_fromisoformat rt (replace_Z (py_str rt v)))"

text \<open>
  The keyword arguments a \<^verbatim>\<open>_normalize_*\<close> method hands to
  \<^verbatim>\<open>UnifiedItemCreate(...)\<close>, before validation. An argument the method does not
  pass is \<open>JNull\<close>, the default \<^verbatim>\<open>None\<close> of its field.
\<close>

record item_args =
  a_source_type :: SourceType
  a_source_name :: string
  a_external_id :: string
  a_raw_data_id :: int
  a_title :: json
  a_description :: json
  a_category :: json
  a_url :: json
  a_image_url :: json
  a_author :: json
  a_amount :: "rat option"
  a_quantity :: "int option"
  a_rating :: "rat option"
  a_tags :: json
  a_extra_metadata :: payload
  a_published_at :: "datetime option"

subsection \<open>Validation: \<^verbatim>\<open>schemas/normalized.py\<close>\<close>

text \<open>A \<^verbatim>\<open>str\<close> field: a string is taken as it is, \<^verbatim>\<open>None\<close> is refused.\<close>

definition str_field :: "runtime \<Rightarrow> json \<Rightarrow> string option" where
  "str_field rt v = (case v of JStr s \<Rightarrow> Some s | JNull \<Rightarrow> None | _ \<Rightarrow> rt_coerce_str rt v)"

text \<open>An \<^verbatim>\<open>Optional[str]\<close> field with \<^verbatim>\<open>max_length\<close>; the outer \<open>None\<close> is a
  validation error.\<close>

definition opt_str_field :: "runtime \<Rightarrow> nat option \<Rightarrow> json \<Rightarrow> string option option" where
  "opt_str_field rt max_length v =
     (case v of
        JNull \<Rightarrow> Some None
      | _ \<Rightarrow> (case str_field rt v of
                None \<Rightarrow> None
              | Some s \<Rightarrow>
                  (case max_length of
                     None \<Rightarrow> Some (Some s)
                   | Some m \<Rightarrow> if length s \<le> m then Some (Some s) else None)))"

text \<open>The validator \<^verbatim>\<open>clean_title\<close>; \<open>None\<close> is its \<^verbatim>\<open>ValueError\<close>.\<close>

definition clean_title :: "string \<Rightarrow> string option" where
  "clean_title v =
     (if v \<noteq> [] then (let v' = strip v in if v' = [] then None else Some v') else Some v)"

text \<open>
  \<^verbatim>\<open>title: str = Field(..., min_length=1, max_length=500)\<close>: the length bounds are
  checked on the value as given, then \<^verbatim>\<open>clean_title\<close> runs.
\<close>

definition title_field :: "runtime \<Rightarrow> json \<Rightarrow> string option" where
  "title_field rt v =
     (case str_field rt v of
        None \<Rightarrow> None
      | Some s \<Rightarrow> if 1 \<le> length s \<and> length s \<le> 500 then clean_title s else None)"

text \<open>The pre-validator \<^verbatim>\<open>clean_tags\<close>.\<close>

definition clean_tags :: "runtime \<Rightarrow> json \<Rightarrow> string list" where
  "clean_tags rt v =
     (case v of
        JNull \<Rightarrow> []
      | JStr s \<Rightarrow> split_tags s
      | JList ts \<Rightarrow> filter (\<lambda>t. t \<noteq> []) (map (\<lambda>t. strip (py_str rt t)) ts)
      | _ \<Rightarrow> [])"

text \<open>The names of the fields whose value the model refuses.\<close>

definition field_errors :: "runtime \<Rightarrow> item_args \<Rightarrow> string list" where
  "field_errors rt a =
     (if 1 \<le> length (a_source_name a) \<and> length (a_source_name a) \<le> 100 then [] else [''source_name''])
   @ (if 1 \<le> length (a_external_id a) \<and> length (a_external_id a) \<le> 255 then [] else [''external_id''])
   @ (if title_field rt (a_title a) = None then [''title''] else [])
   @ (if opt_str_field rt None (a_description a) = None then [''description''] else [])
   @ (if opt_str_field rt (Some 200) (a_category a) = None then [''category''] else [])
   @ (if opt_str_field rt (Some 2048) (a_url a) = None then [''url''] else [])
   @ (if opt_str_field rt (Some 2048) (a_image_url a) = None then [''image_url''] else [])
   @ (if opt_str_field rt (Some 200) (a_author a) = None then [''author''] else [])
   @ (case a_amount a of None \<Rightarrow> [] | Some x \<Rightarrow> if 0 \<le> x then [] else [''amount''])
   @ (case a_quantity a of None \<Rightarrow> [] | Some n \<Rightarrow> if 0 \<le> n then [] else [''quantity''])
   @ (case a_rating a of None \<Rightarrow> [] | Some x \<Rightarrow> if 0 \<le> x \<and> x \<le> 5 then [] else [''rating''])"

text \<open>
  \<^verbatim>\<open>UnifiedItemCreate(**kwargs)\<close>: one \<^verbatim>\<open>ValidationError\<close> naming every refused
  field, or the validated item. \<^verbatim>\<open>status\<close> is never passed and is \<^verbatim>\<open>ACTIVE\<close>.
\<close>

definition UnifiedItemCreate_init :: "runtime \<Rightarrow> item_args \<Rightarrow> exn + UnifiedItemCreate" where
  "UnifiedItemCreate_init rt a =
     (if field_errors rt a \<noteq> []
      then Inl (Exn PydanticValidationError ''validation error''
                  (map (\<lambda>f. (f, CStr ''invalid'')) (field_errors rt a)) None)
      else Inr
        \<lparr> c_source_type = a_source_type a,
          c_source_name = a_source_name a,
          c_external_id = a_external_id a,
          c_raw_data_id = a_raw_data_id a,
          c_title = the (title_field rt (a_title a)),
          c_description = the (opt_str_field rt None (a_description a)),
          c_category = the (opt_str_field rt (Some 200) (a_category a)),
          c_url = the (opt_str_field rt (Some 2048) (a_url a)),
          c_image_url = the (opt_str_field rt (Some 2048) (a_image_url a)),
          c_author = the (opt_str_field rt (Some 200) (a_author a)),
          c_amount = a_amount a,
          c_quantity = a_quantity a,
          c_rating = a_rating a,
          c_tags = clean_tags rt (a_tags a),
          c_extra_metadata = a_extra_metadata a,
          c_status = ACTIVE,
          c_published_at = a_published_at a \<rparr>)"

subsection \<open>The three field mappings\<close>

text \<open>The numeric arguments are parsed first, in the order of the call; the first
  exception that leaves a parser leaves the method.\<close>

definition normalize_api ::
  "runtime \<Rightarrow> SourceType \<Rightarrow> string \<Rightarrow> payload \<Rightarrow> int \<Rightarrow> exn + UnifiedItemCreate" where
  "normalize_api rt source_type source_name rec raw_data_id =
     (case parse_float rt (dict_get rec ''price'' (dict_get rec ''cost'' JNull)) of
        Inl e \<Rightarrow> Inl e
      | Inr amount \<Rightarrow>
     (case parse_int rt (dict_get rec ''quantity'' (dict_get rec ''stock'' JNull)) of
        Inl e \<Rightarrow> Inl e
      | Inr quantity \<Rightarrow>
     (case parse_float rt (dict_get rec ''rating'' JNull) of
        Inl e \<Rightarrow> Inl e
      | Inr rating \<Rightarrow>
        UnifiedItemCreate_init rt
          \<lparr> a_source_type = source_type,
            a_source_name = source_name,
            a_external_id = py_str rt (dict_get rec ''id'' (dict_get rec ''item_id'' (JStr []))),
            a_raw_data_id = raw_data_id,
            a_title = dict_get rec ''name'' (dict_get rec ''title'' (JStr ''Untitled'')),
            a_description = dict_get rec ''description'' (JStr []),
            a_category = dict_get rec ''category'' JNull,
            a_url = dict_get rec ''url'' JNull,
            a_image_url = dict_get rec ''image_url'' (dict_get rec ''thumbnail'' JNull),
            a_author = dict_get rec ''author'' JNull,
            a_amount = amount,
            a_quantity = quantity,
            a_rating = rating,
            a_tags = (case dict_get rec ''tags'' JNull of JList ts \<Rightarrow> JList ts | _ \<Rightarrow> JList []),
            a_extra_metadata =
              filter (\<lambda>(k, v). k \<notin> set [''id'', ''name'', ''title'', ''description'', ''category''])
                rec,
            a_published_at =
              parse_datetime rt
                (dict_get rec ''created_date'' (dict_get rec ''created_at'' JNull)) \<rparr>)))"

definition csv_tags :: "payload \<Rightarrow> string list" where
  "csv_tags rec =
     (if truthy (dict_get rec ''keywords'' JNull) \<or> truthy (dict_get rec ''tags'' JNull)
      then (case py_or (dict_get rec ''keywords'' JNull) (dict_get rec ''tags'' JNull) of
              JStr s \<Rightarrow> split_tags s
            | _ \<Rightarrow> [])
      else [])"

definition normalize_csv ::
  "runtime \<Rightarrow> SourceType \<Rightarrow> string \<Rightarrow> payload \<Rightarrow> int \<Rightarrow> exn + UnifiedItemCreate" where
  "normalize_csv rt source_type source_name rec raw_data_id =
     (case parse_float rt (dict_get rec ''cost'' (dict_get rec ''price'' JNull)) of
        Inl e \<Rightarrow> Inl e
      | Inr amount \<Rightarrow>
     (case parse_int rt (dict_get rec ''quantity'' (dict_get rec ''qty'' JNull)) of
        Inl e \<Rightarrow> Inl e
      | Inr quantity \<Rightarrow>
        UnifiedItemCreate_init rt
          \<lparr> a_source_type = source_type,
            a_source_name = source_name,
            a_external_id = py_str rt (dict_get rec ''id'' (dict_get rec ''row_id'' (JStr []))),
            a_raw_data_id = raw_data_id,
            a_title = dict_get rec ''product_name''
                        (dict_get rec ''name'' (dict_get rec ''title'' (JStr ''Untitled''))),
            a_description = dict_get rec ''details'' (dict_get rec ''description'' (JStr [])),
            a_category = dict_get rec ''category'' JNull,
            a_url = dict_get rec ''url'' (dict_get rec ''link'' JNull),
            a_image_url = JNull,
            a_author = JNull,
            a_amount = amount,
            a_quantity = quantity,
            a_rating = None,
            a_tags = JList (map JStr (csv_tags rec)),
            a_extra_metadata =
              filter (\<lambda>(k, v). k \<notin> set [''id'', ''row_id'', ''product_name'', ''name'', ''details'',
                                          ''category''])
                rec,
            a_published_at =
              parse_datetime rt (dict_get rec ''date'' (dict_get rec ''created_at'' JNull)) \<rparr>))"

definition normalize_rss ::
  "runtime \<Rightarrow> SourceType \<Rightarrow> string \<Rightarrow> payload \<Rightarrow> int \<Rightarrow> exn + UnifiedItemCreate" where
  "normalize_rss rt source_type source_name rec raw_data_id =
     UnifiedItemCreate_init rt
       \<lparr> a_source_type = source_type,
         a_source_name = source_name,
         a_external_id = py_str rt (dict_get rec ''id'' (dict_get rec ''guid'' (JStr []))),
         a_raw_data_id = raw_data_id,
         a_title = dict_get rec ''title'' (JStr ''Untitled''),
         a_description = dict_get rec ''summary'' (dict_get rec ''description'' (JStr [])),
         a_category = dict_get rec ''category'' JNull,
         a_url = dict_get rec ''link'' JNull,
         a_image_url = JNull,
         a_author = dict_get rec ''author'' JNull,
         a_amount = None,
         a_quantity = None,
         a_rating = None,
         a_tags = dict_get rec ''tags'' (JList []),
         a_extra_metadata =
           (''content'', dict_get rec ''content'' (JStr []))
           # filter (\<lambda>(k, v). k \<notin> set [''id'', ''title'', ''summary'', ''link''] \<and> k \<noteq> ''content'')
               rec,
         a_published_at = parse_datetime rt (dict_get rec ''published'' JNull) \<rparr>"

text \<open>\<^verbatim>\<open>DataNormalizer.normalize\<close>: the dispatch on the source type.\<close>

definition normalize ::
  "runtime \<Rightarrow> SourceType \<Rightarrow> string \<Rightarrow> payload \<Rightarrow> int \<Rightarrow> exn + UnifiedItemCreate" where
  "normalize rt source_type source_name raw_record raw_data_id =
     (if source_type = API then normalize_api rt source_type source_name raw_record raw_data_id
      else if source_type = CSV then normalize_csv rt source_type source_name raw_record raw_data_id
      else if source_type = RSS then normalize_rss rt source_type source_name raw_record raw_data_id
      else Inl (Exn ValueError ''Unknown source type'' [] None))"

section \<open>The tables of the pipeline\<close>

text \<open>
  \<^verbatim>\<open>models/raw_data.py\<close>, \<^verbatim>\<open>models/etl_run.py\<close> and \<^verbatim>\<open>models/checkpoint.py\<close>,
  with the columns the pipeline writes. The random \<^verbatim>\<open>run_id\<close> of a run is left out.
\<close>

record RawData =
  rd_id :: int
  rd_source_type :: SourceType
  rd_source_name :: string
  rd_source_id :: string
  rd_raw_payload :: payload
  rd_ingested_at :: datetime
  rd_processed :: bool
  rd_processed_at :: "datetime option"
  rd_etl_run_id :: "int option"

record ETLRun =
  er_id :: int
  er_source_type :: SourceType
  er_source_name :: string
  er_status :: ETLStatus
  er_started_at :: datetime
  er_completed_at :: "datetime option"
  er_duration_seconds :: "rat option"
  er_records_extracted :: nat
  er_records_loaded :: nat
  er_records_failed :: nat
  er_checkpoint_before :: "string option"
  er_checkpoint_after :: "string option"
  er_error_message :: "string option"

record ETLCheckpoint =
  cp_source_type :: SourceType
  cp_source_name :: string
  cp_checkpoint_type :: string
  cp_checkpoint_value :: "string option"
  cp_status :: ETLStatus
  cp_last_run_at :: "datetime option"
  cp_last_success_at :: "datetime option"
  cp_last_failure_at :: "datetime option"
  cp_total_runs :: nat
  cp_total_records_processed :: nat
  cp_last_records_processed :: nat
  cp_error_message :: "string option"
  cp_created_at :: datetime
  cp_updated_at :: datetime

text \<open>
  The committed state of the database. Beside the four tables it keeps a journal: one
  entry for every transaction the pipeline commits, in commit order.
\<close>

datatype db_op =
    OpStartRun int
  | OpCompleteRun int ETLStatus
  | OpCheckpoint "string" ETLStatus
  | OpSaveRaw "int list"
  | OpLoad nat
  | OpMarkProcessed "int list"

record database =
  etl_checkpoints :: "ETLCheckpoint list"
  etl_runs :: "ETLRun list"
  raw_data :: "RawData list"
  unified_items :: "UnifiedItem list"
  journal :: "db_op list"

section \<open>The source client: \<^verbatim>\<open>ingestion/base.py\<close>\<close>

text \<open>
  A \<^verbatim>\<open>DataSource\<close>: its attributes, the run row \<^verbatim>\<open>self.etl_run\<close> refers to (by
  id), and its three abstract methods. \<^verbatim>\<open>fetch_data\<close> returns the fetched records or
  the exception it raises.
\<close>

record DataSource =
  ds_source_type :: SourceType
  ds_source_name :: string
  ds_checkpoint_type :: string
  ds_etl_run :: "int option"
  fetch_data :: "string \<Rightarrow> exn + payload list"
  extract_record_id :: "payload \<Rightarrow> string"
  extract_timestamp :: "payload \<Rightarrow> datetime option"

definition get_checkpoint :: "DataSource \<Rightarrow> database \<Rightarrow> ETLCheckpoint option" where
  "get_checkpoint ds db =
     find (\<lambda>c. cp_source_type c = ds_source_type ds \<and> cp_source_name c = ds_source_name ds)
       (etl_checkpoints db)"

definition create_or_update_checkpoint ::
  "DataSource \<Rightarrow> string \<Rightarrow> ETLStatus \<Rightarrow> nat \<Rightarrow> string option \<Rightarrow> datetime \<Rightarrow> database
     \<Rightarrow> database" where
  "create_or_update_checkpoint ds checkpoint_value status records_processed error_message now db =
     (case get_checkpoint ds db of
        None \<Rightarrow>
          db \<lparr> etl_checkpoints := etl_checkpoints db @
                 [\<lparr> cp_source_type = ds_source_type ds,
                    cp_source_name = ds_source_name ds,
                    cp_checkpoint_type = ds_checkpoint_type ds,
                    cp_checkpoint_value = Some checkpoint_value,
                    cp_status = status,
                    cp_last_run_at = Some now,
                    cp_last_success_at = (if status = SUCCESS then Some now else None),
                    cp_last_failure_at =
                      (if status = FAILED then Some now else None),
                    cp_total_runs = 1,
                    cp_total_records_processed = records_processed,
                    cp_last_records_processed = records_processed,
                    cp_error_message = error_message,
                    cp_created_at = now,
                    cp_updated_at = now \<rparr>],
               journal := journal db @ [OpCheckpoint checkpoint_value status] \<rparr>
      | Some checkpoint \<Rightarrow>
          db \<lparr> etl_checkpoints :=
                 map (\<lambda>c. if cp_source_type c = ds_source_type ds
                              \<and> cp_source_name c = ds_source_name ds
                           then c \<lparr> cp_checkpoint_value := Some checkpoint_value,
                                    cp_status := status,
                                    cp_last_run_at := Some now,
                                    cp_total_runs := cp_total_runs c + 1,
                                    cp_total_records_processed :=
                                      cp_total_records_processed c + records_processed,
                                    cp_last_records_processed := records_processed,
                                    cp_error_message := error_message,
                                    cp_updated_at := now,
                                    cp_last_success_at :=
                                      (if status = SUCCESS then Some now
                                       else cp_last_success_at c),
                                    cp_last_failure_at :=
                                      (if status = FAILED then Some now
                                       else cp_last_failure_at c) \<rparr>
                           else c)
                   (etl_checkpoints db),
               journal := journal db @ [OpCheckpoint checkpoint_value status] \<rparr>)"

text \<open>\<^verbatim>\<open>start_etl_run\<close>: the new row takes the next id of the table's sequence.\<close>

definition start_etl_run ::
  "DataSource \<Rightarrow> string \<Rightarrow> datetime \<Rightarrow> database \<Rightarrow> DataSource \<times> database" where
  "start_etl_run ds checkpoint_before now db =
     (let new_id = int (length (etl_runs db)) + 1 in
      (ds \<lparr> ds_etl_run := Some new_id \<rparr>,
       db \<lparr> etl_runs := etl_runs db @
              [\<lparr> er_id = new_id,
                 er_source_type = ds_source_type ds,
                 er_source_name = ds_source_name ds,
                 er_status = RUNNING,
                 er_started_at = now,
                 er_completed_at = None,
                 er_duration_seconds = None,
                 er_records_extracted = 0,
                 er_records_loaded = 0,
                 er_records_failed = 0,
                 er_checkpoint_before = Some checkpoint_before,
                 er_checkpoint_after = None,
                 er_error_message = None \<rparr>],
            journal := journal db @ [OpStartRun new_id] \<rparr>))"

definition complete_etl_run ::
  "DataSource \<Rightarrow> ETLStatus \<Rightarrow> nat \<Rightarrow> nat \<Rightarrow> nat \<Rightarrow> string option \<Rightarrow> string option
     \<Rightarrow> datetime \<Rightarrow> database \<Rightarrow> database" where
  "complete_etl_run ds status records_extracted records_loaded records_failed checkpoint_after
       error_message now db =
     (case ds_etl_run ds of
        None \<Rightarrow> db
      | Some run \<Rightarrow>
          db \<lparr> etl_runs :=
                 map (\<lambda>r. if er_id r = run
                           then r \<lparr> er_status := status,
                                    er_completed_at := Some now,
                                    er_duration_seconds := Some (now - er_started_at r),
                                    er_records_extracted := records_extracted,
                                    er_records_loaded := records_loaded,
                                    er_records_failed := records_failed,
                                    er_checkpoint_after := checkpoint_after,
                                    er_error_message := error_message \<rparr>
                           else r)
                   (etl_runs db),
               journal := journal db @ [OpCompleteRun run status] \<rparr>)"

text \<open>\<^verbatim>\<open>save_raw_data\<close>: one row per record, unprocessed, with consecutive new ids.\<close>

definition new_raw_rows ::
  "DataSource \<Rightarrow> payload list \<Rightarrow> datetime \<Rightarrow> int \<Rightarrow> RawData list" where
  "new_raw_rows ds records now last_id =
     map (\<lambda>(i, rec).
            \<lparr> rd_id = last_id + 1 + int i,
              rd_source_type = ds_source_type ds,
              rd_source_name = ds_source_name ds,
              rd_source_id = extract_record_id ds rec,
              rd_raw_payload = rec,
              rd_ingested_at = now,
              rd_processed = False,
              rd_processed_at = None,
              rd_etl_run_id = ds_etl_run ds \<rparr>)
       (enumerate 0 records)"

definition save_raw_data ::
  "DataSource \<Rightarrow> payload list \<Rightarrow> datetime \<Rightarrow> database \<Rightarrow> RawData list \<times> database" where
  "save_raw_data ds records now db =
     (let raw_records = new_raw_rows ds records now (int (length (raw_data db))) in
      (raw_records,
       db \<lparr> raw_data := raw_data db @ raw_records,
            journal := journal db @ [OpSaveRaw (map rd_id raw_records)] \<rparr>))"

text \<open>\<^verbatim>\<open>max(xs)\<close> of a non-empty list.\<close>

fun py_max :: "'a::linorder list \<Rightarrow> 'a option" where
  "py_max [] = None"
| "py_max (x # xs) = Some (fold max xs x)"

text \<open>\<^verbatim>\<open>_calculate_checkpoint\<close>; \<open>now\<close> is the reading of \<^verbatim>\<open>datetime.utcnow()\<close>.\<close>

definition calculate_checkpoint ::
  "runtime \<Rightarrow> DataSource \<Rightarrow> payload list \<Rightarrow> datetime \<Rightarrow> string" where
  "calculate_checkpoint rt ds records now =
     (if ds_checkpoint_type ds = ''timestamp''
      then (case py_max (List.map_filter (extract_timestamp ds) records) of
              Some t \<Rightarrow> rt_isoformat rt t
            | None \<Rightarrow> rt_isoformat rt now)
      else if ds_checkpoint_type ds = ''id''
      then (case py_max (map (extract_record_id ds) records) of
              Some i \<Rightarrow> i
            | None \<Rightarrow> rt_isoformat rt now)
      else rt_isoformat rt now)"

text \<open>The dictionary \<^verbatim>\<open>run_incremental\<close> returns.\<close>

record extract_result =
  xr_status :: string
  xr_records_extracted :: nat
  xr_records_loaded :: "nat option"
  xr_checkpoint :: "string option"
  xr_raw_data_ids :: "int list"
  xr_message :: "string option"

text \<open>\<^verbatim>\<open>checkpoint.checkpoint_value or ""\<close> of the stored checkpoint, if there is one.\<close>

definition current_checkpoint_value :: "DataSource \<Rightarrow> database \<Rightarrow> string" where
  "current_checkpoint_value ds db =
     (case get_checkpoint ds db of
        None \<Rightarrow> []
      | Some checkpoint \<Rightarrow>
          (case cp_checkpoint_value checkpoint of None \<Rightarrow> [] | Some v \<Rightarrow> v))"

text \<open>
  \<^verbatim>\<open>run_incremental\<close>. The exception handler is the branch of a raising
  \<^verbatim>\<open>fetch_data\<close>; the statements on the database are taken to succeed. All clock
  readings of one call are the instant \<open>now\<close>.
\<close>

definition run_incremental ::
  "runtime \<Rightarrow> datetime \<Rightarrow> DataSource \<Rightarrow> database
     \<Rightarrow> (exn + extract_result) \<times> DataSource \<times> database" where
  "run_incremental rt now ds0 db0 =
     (let checkpoint_value = current_checkpoint_value ds0 db0;
          (ds, db1) = start_etl_run ds0 checkpoint_value now db0
      in case fetch_data ds checkpoint_value of
           Inl e \<Rightarrow>
             (Inl e, ds,
              create_or_update_checkpoint ds checkpoint_value FAILED 0
                (Some (rt_str_exn rt e)) now
                (complete_etl_run ds FAILED 0 0 0 None (Some (rt_str_exn rt e)) now db1))
         | Inr records \<Rightarrow>
             if length records = 0
             then (Inr \<lparr> xr_status = ''success'', xr_records_extracted = 0,
                         xr_records_loaded = None, xr_checkpoint = None,
                         xr_raw_data_ids = [], xr_message = Some ''No new data'' \<rparr>,
                   ds,
                   create_or_update_checkpoint ds checkpoint_value SUCCESS 0 None now
                     (complete_etl_run ds SUCCESS 0 0 0 (Some checkpoint_value) None now db1))
             else
               (let (raw_records, db2) = save_raw_data ds records now db1;
                    new_checkpoint = calculate_checkpoint rt ds records now;
                    db3 = complete_etl_run ds SUCCESS (length records) (length records) 0
                            (Some new_checkpoint) None now db2;
                    db4 = create_or_update_checkpoint ds new_checkpoint SUCCESS (length records)
                            None now db3
                in (Inr \<lparr> xr_status = ''success'', xr_records_extracted = length records,
                           xr_records_loaded = Some (length records),
                           xr_checkpoint = Some new_checkpoint,
                           xr_raw_data_ids = map rd_id raw_records, xr_message = None \<rparr>,
                    ds, db4)))"

section \<open>The orchestrator: \<^verbatim>\<open>ingestion/runner.py\<close>\<close>

text \<open>\<^verbatim>\<open>SourceType.value\<close>\<close>

fun SourceType_value :: "SourceType \<Rightarrow> string" where
  "SourceType_value API = ''api''"
| "SourceType_value CSV = ''csv''"
| "SourceType_value RSS = ''rss''"
| "SourceType_value FEED = ''feed''"

text \<open>
  The database faults of a run: the exception, if any, that the SELECT of the
  unprocessed rows, \<^verbatim>\<open>PostgresLoader.load\<close> and the commit of the processed flags
  raise.
\<close>

record faults =
  f_select :: "exn option"
  f_load :: "exn option"
  f_mark :: "exn option"

record error_detail =
  ed_phase :: string
  ed_raw_data_id :: int
  ed_error_type :: exn_class
  ed_error_message :: string

record run_result =
  rr_status :: string
  rr_records_extracted :: nat
  rr_records_loaded :: nat
  rr_records_failed :: nat
  rr_message :: "string option"
  rr_error_details :: "error_detail list"

text \<open>
  The handler \<^verbatim>\<open>except (ExtractionError, LoadError, DatabaseError)\<close>: roll back, mark
  the run \<^verbatim>\<open>FAILED\<close> with the counts so far, raise again. The rollback leaves the
  committed state as it is.
\<close>

definition fail_run ::
  "datetime \<Rightarrow> DataSource \<Rightarrow> database \<Rightarrow> exn \<Rightarrow> nat \<Rightarrow> nat \<Rightarrow> nat
     \<Rightarrow> (exn + run_result) \<times> DataSource \<times> database" where
  "fail_run now ds db e records_extracted records_loaded records_failed =
     (Inl e, ds,
      complete_etl_run ds FAILED records_extracted records_loaded records_failed None
        (Some (e_message e)) now db)"

text \<open>Phase 2: the unprocessed rows of the source, at most 1000, in table order.\<close>

definition select_unprocessed :: "DataSource \<Rightarrow> database \<Rightarrow> RawData list" where
  "select_unprocessed ds db =
     take 1000
       (filter (\<lambda>r. rd_source_type r = ds_source_type ds
                   \<and> rd_source_name r = ds_source_name ds
                   \<and> \<not> rd_processed r)
          (raw_data db))"

text \<open>
  Phase 3: the loop over the raw rows. It returns \<^verbatim>\<open>normalized_items\<close>,
  \<^verbatim>\<open>failed_raw_ids\<close> and \<^verbatim>\<open>error_details\<close>, each in the order of the rows.
\<close>

fun normalize_records ::
  "runtime \<Rightarrow> SourceType \<Rightarrow> string \<Rightarrow> RawData list
     \<Rightarrow> UnifiedItemCreate list \<times> int list \<times> error_detail list" where
  "normalize_records rt source_type source_name [] = ([], [], [])"
| "normalize_records rt source_type source_name (raw # raws) =
     (case normalize_records rt source_type source_name raws of
        (normalized_items, failed_raw_ids, error_details) \<Rightarrow>
          (case normalize rt source_type source_name (rd_raw_payload raw) (rd_id raw) of
             Inr normalized \<Rightarrow> (normalized # normalized_items, failed_raw_ids, error_details)
           | Inl e \<Rightarrow>
               (normalized_items, rd_id raw # failed_raw_ids,
                \<lparr> ed_phase = ''normalization'', ed_raw_data_id = rd_id raw,
                  ed_error_type = e_class e, ed_error_message = rt_str_exn rt e \<rparr>
                # error_details)))"

text \<open>\<^verbatim>\<open>extractor.etl_run.completed_at if extractor.etl_run else None\<close>\<close>

definition run_completed_at :: "DataSource \<Rightarrow> database \<Rightarrow> datetime option" where
  "run_completed_at ds db =
     (case ds_etl_run ds of
        None \<Rightarrow> None
      | Some run \<Rightarrow>
          (case find (\<lambda>r. er_id r = run) (etl_runs db) of
             None \<Rightarrow> None
           | Some r \<Rightarrow> er_completed_at r))"

text \<open>Phase 5: the rows read in phase 2 that did not fail normalization are flagged.\<close>

definition mark_processed ::
  "DataSource \<Rightarrow> RawData list \<Rightarrow> int list \<Rightarrow> database \<Rightarrow> database" where
  "mark_processed ds raw_records failed_raw_ids db =
     (let successfully_processed_ids =
            filter (\<lambda>i. i \<notin> set failed_raw_ids) (map rd_id raw_records)
      in db \<lparr> raw_data :=
                map (\<lambda>r. if rd_id r \<in> set successfully_processed_ids
                          then r \<lparr> rd_processed := True,
                                   rd_processed_at := run_completed_at ds db \<rparr>
                          else r)
                  (raw_data db),
              journal := journal db @ [OpMarkProcessed successfully_processed_ids] \<rparr>)"

text \<open>The context every error of the orchestrator starts with.\<close>

definition source_context :: "DataSource \<Rightarrow> (string \<times> ctx_value) list" where
  "source_context ds =
     [(''source_type'', CStr (SourceType_value (ds_source_type ds))),
      (''source_name'', CStr (ds_source_name ds))]"

text \<open>
  Phases 2 to 6 of \<^verbatim>\<open>ETLRunner.run\<close>, entered with the result of a successful
  extraction of at least one record.
\<close>

definition process_extracted ::
  "runtime \<Rightarrow> faults \<Rightarrow> datetime \<Rightarrow> DataSource \<Rightarrow> database \<Rightarrow> extract_result
     \<Rightarrow> (exn + run_result) \<times> DataSource \<times> database" where
  "process_extracted rt fs now ds db xr =
     (let records_extracted = xr_records_extracted xr in
      case f_select fs of
        Some e \<Rightarrow>
          fail_run now ds db
            (Exn DatabaseError ''Failed to fetch unprocessed raw data''
               (source_context ds @ [(''operation'', CStr ''SELECT''),
                                     (''table_name'', CStr ''raw_data'')]) (Some e))
            records_extracted 0 0
      | None \<Rightarrow>
     (let raw_records = select_unprocessed ds db in
      case normalize_records rt (ds_source_type ds) (ds_source_name ds) raw_records of
        (normalized_items, failed_raw_ids, error_details) \<Rightarrow>
     (let records_failed = length failed_raw_ids in
      if normalized_items \<noteq> [] \<and> f_load fs \<noteq> None
      then fail_run now ds db
             (Exn LoadError ''Failed to load normalized data''
                (source_context ds @ [(''records_to_load'', CInt (int (length normalized_items))),
                                      (''operation'', CStr ''UPSERT''),
                                      (''table_name'', CStr ''unified_items'')]) (f_load fs))
             records_extracted 0 records_failed
      else
     (let (records_loaded, db1) =
            (if normalized_items \<noteq> []
             then (case load normalized_items None now (unified_items db) of
                     (n, rows) \<Rightarrow>
                       (n, db \<lparr> unified_items := rows, journal := journal db @ [OpLoad n] \<rparr>))
             else (0, db))
      in case f_mark fs of
           Some e \<Rightarrow>
             fail_run now ds db1
               (Exn DatabaseError ''Failed to update raw data processed status''
                  (source_context ds @ [(''operation'', CStr ''UPDATE''),
                                        (''table_name'', CStr ''raw_data'')]) (Some e))
               records_extracted records_loaded records_failed
         | None \<Rightarrow>
             (let db2 = mark_processed ds raw_records failed_raw_ids db1;
                  status = (if records_failed = 0 then SUCCESS else PARTIAL);
                  db3 = complete_etl_run ds status records_extracted records_loaded records_failed
                          (xr_checkpoint xr)
                          (if records_failed > 0
                           then Some (py_str rt (JInt (int records_failed)) @ '' records failed'')
                           else None)
                          now db2
              in (Inr \<lparr> rr_status =
                           (if records_failed = 0 then ''success'' else ''partial_success''),
                         rr_records_extracted = records_extracted,
                         rr_records_loaded = records_loaded,
                         rr_records_failed = records_failed,
                         rr_message = None,
                         rr_error_details = error_details \<rparr>,
                  ds, db3))))))"

text \<open>
  \<^verbatim>\<open>ETLRunner.run(extractor)\<close>. An exception of the extraction that is not an
  \<^verbatim>\<open>ExtractionError\<close> is wrapped in one. With the database taken to succeed outside
  the three faults, no other exception arises, so the last handler of the source
  (\<^verbatim>\<open>except Exception\<close>) has no branch here.
\<close>

definition run ::
  "runtime \<Rightarrow> faults \<Rightarrow> datetime \<Rightarrow> DataSource \<Rightarrow> database
     \<Rightarrow> (exn + run_result) \<times> DataSource \<times> database" where
  "run rt fs now extractor db0 =
     (case run_incremental rt now extractor db0 of
        (Inl e, ds, db) \<Rightarrow>
          fail_run now ds db
            (if is_ExtractionError e then e
             else Exn ExtractionError ''Unexpected error during extraction'' (source_context ds)
                    (Some e))
            0 0 0
      | (Inr extract_result, ds, db) \<Rightarrow>
          if xr_status extract_result \<noteq> ''success''
          then fail_run now ds db
                 (Exn ExtractionError ''Extraction phase failed'' (source_context ds) None) 0 0 0
          else if xr_records_extracted extract_result = 0
          then (Inr \<lparr> rr_status = ''success'', rr_records_extracted = 0,
                      rr_records_loaded = 0, rr_records_failed = 0,
                      rr_message = Some ''No new data'', rr_error_details = [] \<rparr>,
                ds, db)
          else process_extracted rt fs now ds db extract_result)"

section \<open>The API client: \<^verbatim>\<open>ingestion/extractors/api_extractor.py\<close>\<close>

text \<open>
  What \<^verbatim>\<open>client.get\<close> can do: return a response or raise. Of a response the client
  reads the status code, the header \<^verbatim>\<open>Retry-After\<close>, the body text and whether
  \<^verbatim>\<open>raise_for_status()\<close> raises. The header is kept as the outcome of
  \<^verbatim>\<open>int(...)\<close> on it: \<open>None\<close> when the header is absent, the class of the exception
  when the conversion raises.
\<close>

record http_response =
  status_code :: nat
  retry_after_header :: "(exn_class + int) option"
  response_text :: string
  raises_for_status :: bool

datatype get_outcome = Returned http_response | Raised exn

text \<open>
  The network is the environment: the \<open>k\<close>-th call of \<^verbatim>\<open>client.get\<close> takes some
  time and has some outcome. The world state counts the calls made, keeps the clock and
  logs every \<^verbatim>\<open>asyncio.sleep\<close>.
\<close>

type_synonym network = "nat \<Rightarrow> rat \<times> get_outcome"

record world =
  w_clock :: datetime
  w_calls :: nat
  w_sleeps :: "rat list"

record APIExtractor =
  ax_source_name :: string
  ax_max_retries :: nat
  ax_retry_delay :: rat
  ax_timeout :: rat
  circuit_breaker_failures :: nat
  circuit_breaker_threshold :: nat
  circuit_breaker_open_until :: "datetime option"
  circuit_breaker_timeout :: rat

text \<open>The state \<^verbatim>\<open>__init__\<close> leaves: the breaker closed, threshold 5, cooldown 60.\<close>

definition APIExtractor_init :: "string \<Rightarrow> nat \<Rightarrow> rat \<Rightarrow> rat \<Rightarrow> APIExtractor" where
  "APIExtractor_init source_name max_retries retry_delay timeout =
     \<lparr> ax_source_name = source_name,
       ax_max_retries = max_retries,
       ax_retry_delay = retry_delay,
       ax_timeout = timeout,
       circuit_breaker_failures = 0,
       circuit_breaker_threshold = 5,
       circuit_breaker_open_until = None,
       circuit_breaker_timeout = 60 \<rparr>"

text \<open>\<^verbatim>\<open>_is_circuit_open\<close>, with \<open>now\<close> the reading of \<^verbatim>\<open>datetime.utcnow()\<close>.\<close>

definition is_circuit_open :: "datetime \<Rightarrow> APIExtractor \<Rightarrow> bool \<times> APIExtractor" where
  "is_circuit_open now ax =
     (case circuit_breaker_open_until ax of
        None \<Rightarrow> (False, ax)
      | Some open_until \<Rightarrow>
          if now \<ge> open_until
          then (False, ax \<lparr> circuit_breaker_failures := 0,
                            circuit_breaker_open_until := None \<rparr>)
          else (True, ax))"

definition record_failure :: "datetime \<Rightarrow> APIExtractor \<Rightarrow> APIExtractor" where
  "record_failure now ax =
     (let ax1 = ax \<lparr> circuit_breaker_failures := circuit_breaker_failures ax + 1 \<rparr> in
      if circuit_breaker_failures ax1 \<ge> circuit_breaker_threshold ax1
      then ax1 \<lparr> circuit_breaker_open_until := Some (now + circuit_breaker_timeout ax1) \<rparr>
      else ax1)"

definition record_success :: "APIExtractor \<Rightarrow> APIExtractor" where
  "record_success ax =
     ax \<lparr> circuit_breaker_failures := 0, circuit_breaker_open_until := None \<rparr>"

text \<open>\<^verbatim>\<open>await asyncio.sleep(delay)\<close>\<close>

definition sleep :: "rat \<Rightarrow> world \<Rightarrow> world" where
  "sleep delay w = w \<lparr> w_clock := w_clock w + max 0 delay, w_sleeps := w_sleeps w @ [delay] \<rparr>"

text \<open>\<^verbatim>\<open>self.retry_delay * (2 ** attempt)\<close>\<close>

definition backoff :: "APIExtractor \<Rightarrow> nat \<Rightarrow> rat" where
  "backoff ax attempt = ax_retry_delay ax * 2 ^ attempt"

text \<open>\<^verbatim>\<open>int(x)\<close> of a finite float: truncation towards zero.\<close>

definition py_trunc :: "rat \<Rightarrow> int" where
  "py_trunc x = (if 0 \<le> x then \<lfloor>x\<rfloor> else \<lceil>x\<rceil>)"

text \<open>
  One pass through the body of \<^verbatim>\<open>for attempt in range(self.max_retries)\<close> either
  goes on to the next attempt or leaves the function.
\<close>

datatype step =
    Continue world "exn option"
  | Leave "exn + http_response" world APIExtractor

text \<open>
  The handler \<^verbatim>\<open>except Exception as e\<close>. It also receives what the \<^verbatim>\<open>try\<close> body
  itself raises, unless an earlier handler takes it.
\<close>

definition handle_exception ::
  "string \<Rightarrow> APIExtractor \<Rightarrow> nat \<Rightarrow> world \<Rightarrow> exn \<Rightarrow> step" where
  "handle_exception url ax attempt w e =
     (if attempt + 1 < ax_max_retries ax
      then Continue (sleep (backoff ax attempt) w) (Some e)
      else Leave
        (Inl (Exn APIExtractionError ''Unexpected error after max_retries retries''
                [(''api_url'', CStr url),
                 (''source_name'', CStr (ax_source_name ax)),
                 (''retry_count'', CInt (int attempt + 1))]
                (Some e)))
        w (record_failure (w_clock w) ax))"

text \<open>
  The handlers \<^verbatim>\<open>except httpx.TimeoutException\<close> and
  \<^verbatim>\<open>except httpx.NetworkError\<close>. What they raise is raised from a handler, so it
  leaves the function.
\<close>

definition handle_transport ::
  "string \<Rightarrow> APIExtractor \<Rightarrow> nat \<Rightarrow> world \<Rightarrow> exn \<Rightarrow> step" where
  "handle_transport url ax attempt w e =
     (if attempt + 1 < ax_max_retries ax
      then Continue (sleep (backoff ax attempt) w) (Some e)
      else Leave
        (Inl (if e_class e = HttpxTimeoutException
              then Exn NetworkError ''Request timeout after max_retries retries''
                     [(''api_url'', CStr url),
                      (''source_name'', CStr (ax_source_name ax)),
                      (''timeout'', CNum (ax_timeout ax)),
                      (''retry_count'', CInt (int attempt + 1))]
                     (Some e)
              else Exn NetworkError ''Network error after max_retries retries''
                     [(''api_url'', CStr url),
                      (''source_name'', CStr (ax_source_name ax)),
                      (''retry_count'', CInt (int attempt + 1))]
                     (Some e)))
        w (record_failure (w_clock w) ax))"

text \<open>
  The \<^verbatim>\<open>try\<close> body on a response. An exception it raises is taken by the handler
  for \<^verbatim>\<open>(AuthenticationError, ResourceNotFoundError)\<close>, which raises it again, or
  else by \<^verbatim>\<open>except Exception\<close>: the \<^verbatim>\<open>RateLimitError\<close> and the
  \<^verbatim>\<open>NetworkError\<close> of the last attempt go that way, after the failure was recorded.
\<close>

definition on_response ::
  "string \<Rightarrow> APIExtractor \<Rightarrow> nat \<Rightarrow> world \<Rightarrow> http_response \<Rightarrow> step" where
  "on_response url ax attempt w response =
     (if status_code response = 401 \<or> status_code response = 403
      then Leave
        (Inl (Exn AuthenticationError ''Authentication failed''
                [(''status_code'', CInt (int (status_code response))),
                 (''api_url'', CStr url),
                 (''source_name'', CStr (ax_source_name ax))] None))
        w (record_failure (w_clock w) ax)
      else if status_code response = 404
      then Leave
        (Inl (Exn ResourceNotFoundError ''Resource not found''
                [(''status_code'', CInt 404),
                 (''api_url'', CStr url),
                 (''source_name'', CStr (ax_source_name ax))] None))
        w (record_failure (w_clock w) ax)
      else if status_code response = 429
      then (case (case retry_after_header response of
                    None \<Rightarrow> Inr (py_trunc (backoff ax attempt))
                  | Some h \<Rightarrow> h) of
              Inl c \<Rightarrow> handle_exception url ax attempt w (Exn c [] [] None)
            | Inr retry_after \<Rightarrow>
                if attempt + 1 < ax_max_retries ax
                then Continue (sleep (of_int retry_after) w) None
                else handle_exception url (record_failure (w_clock w) ax) attempt w
                       (Exn RateLimitError ''Rate limit exceeded''
                          ([(''status_code'', CInt 429),
                            (''api_url'', CStr url),
                            (''source_name'', CStr (ax_source_name ax)),
                            (''retry_count'', CInt (int attempt + 1))]
                           @ (if retry_after \<noteq> 0 then [(''retry_after'', CInt retry_after)]
                              else []))
                          None))
      else if status_code response \<ge> 500
      then (if attempt + 1 < ax_max_retries ax
            then Continue (sleep (backoff ax attempt) w) None
            else handle_exception url (record_failure (w_clock w) ax) attempt w
                   (Exn NetworkError ''Server error after max_retries retries''
                      [(''status_code'', CInt (int (status_code response))),
                       (''api_url'', CStr url),
                       (''source_name'', CStr (ax_source_name ax)),
                       (''retry_count'', CInt (int attempt + 1)),
                       (''response_body'', CStr (take 500 (response_text response)))]
                      None))
      else if raises_for_status response
      then handle_exception url ax attempt w (Exn HttpxHTTPStatusError [] [] None)
      else Leave (Inr response) w (record_success ax))"

text \<open>
  One attempt: the call of \<^verbatim>\<open>client.get\<close>, which takes its time, and the branch for
  its outcome. The handlers are tried in the order of the source.
\<close>

definition attempt_once ::
  "network \<Rightarrow> string \<Rightarrow> APIExtractor \<Rightarrow> nat \<Rightarrow> world \<Rightarrow> step" where
  "attempt_once net url ax attempt w =
     (case net (w_calls w) of
        (duration, outcome) \<Rightarrow>
          (let w1 = w \<lparr> w_clock := w_clock w + duration, w_calls := w_calls w + 1 \<rparr> in
           case outcome of
             Returned response \<Rightarrow> on_response url ax attempt w1 response
           | Raised e \<Rightarrow>
               if e_class e = HttpxTimeoutException \<or> e_class e = HttpxNetworkError
               then handle_transport url ax attempt w1 e
               else if is_auth_or_not_found e then Leave (Inl e) w1 ax
               else handle_exception url ax attempt w1 e))"

text \<open>
  The loop \<^verbatim>\<open>for attempt in range(self.max_retries)\<close> and the \<^verbatim>\<open>raise\<close> after
  it, with \<^verbatim>\<open>last_exception\<close> as a loop variable.
\<close>

function request_loop ::
  "network \<Rightarrow> string \<Rightarrow> APIExtractor \<Rightarrow> nat \<Rightarrow> exn option \<Rightarrow> world
     \<Rightarrow> (exn + http_response) \<times> world \<times> APIExtractor" where
  "request_loop net url ax attempt last_exception w =
     (if attempt < ax_max_retries ax
      then (case attempt_once net url ax attempt w of
              Continue w' e \<Rightarrow>
                request_loop net url ax (attempt + 1)
                  (case e of None \<Rightarrow> last_exception | Some x \<Rightarrow> Some x) w'
            | Leave result w' ax' \<Rightarrow> (result, w', ax'))
      else (Inl (Exn APIExtractionError ''Max retries exceeded''
                   [(''api_url'', CStr url), (''source_name'', CStr (ax_source_name ax))]
                   last_exception),
            w, ax))"
  by pat_completeness auto
termination
  by (relation "measure (\<lambda>(net, url, ax, attempt, last_exception, w). ax_max_retries ax - attempt)")
    auto

declare request_loop.simps [simp del]

text \<open>
  \<^verbatim>\<open>_make_request_with_retry\<close>. The request headers and the query parameters are
  only handed on to \<^verbatim>\<open>client.get\<close> and are not arguments here.
\<close>

definition make_request_with_retry ::
  "network \<Rightarrow> string \<Rightarrow> world \<Rightarrow> APIExtractor
     \<Rightarrow> (exn + http_response) \<times> world \<times> APIExtractor" where
  "make_request_with_retry net url w ax =
     (case is_circuit_open (w_clock w) ax of
        (True, ax') \<Rightarrow>
          (Inl (Exn APIExtractionError ''Circuit breaker is open''
                  [(''source_name'', CStr (ax_source_name ax')),
                   (''api_url'', CStr url),
                   (''open_until'', CNum (the (circuit_breaker_open_until ax')))]
                  None),
           w, ax')
      | (False, ax') \<Rightarrow> request_loop net url ax' 0 None w)"

section \<open>The concrete source clients\<close>

text \<open>
  \<^verbatim>\<open>APIExtractor.extract_record_id\<close> and \<^verbatim>\<open>APIExtractor.extract_timestamp\<close>. A
  timestamp that is not a string has no \<^verbatim>\<open>replace\<close>; the bare \<^verbatim>\<open>except\<close> turns
  that and a failed parse into \<^verbatim>\<open>None\<close>.
\<close>

definition api_extract_record_id :: "runtime \<Rightarrow> string \<Rightarrow> payload \<Rightarrow> string" where
  "api_extract_record_id rt id_field rec = py_str rt (dict_get rec id_field (JStr []))"

definition api_extract_timestamp :: "runtime \<Rightarrow> string \<Rightarrow> payload \<Rightarrow> datetime option" where
  "api_extract_timestamp rt timestamp_field rec =
     (let timestamp_str = dict_get rec timestamp_field JNull in
      if truthy timestamp_str
      then (case timestamp_str of
              JStr s \<Rightarrow> rt_fromisoformat rt (replace_Z s)
            | _ \<Rightarrow> None)
      else None)"

text \<open>
  An \<^verbatim>\<open>APIExtractor\<close> as a \<^verbatim>\<open>DataSource\<close>: source type \<^verbatim>\<open>API\<close>, checkpoint type
  \<^verbatim>\<open>"timestamp"\<close>, no run yet. Its \<^verbatim>\<open>fetch_data\<close> is the argument \<open>fetch\<close>.
\<close>

definition api_source ::
  "runtime \<Rightarrow> string \<Rightarrow> string \<Rightarrow> string \<Rightarrow> (string \<Rightarrow> exn + payload list) \<Rightarrow> DataSource" where
  "api_source rt source_name timestamp_field id_field fetch =
     \<lparr> ds_source_type = API,
       ds_source_name = source_name,
       ds_checkpoint_type = ''timestamp'',
       ds_etl_run = None,
       fetch_data = fetch,
       extract_record_id = api_extract_record_id rt id_field,
       extract_timestamp = api_extract_timestamp rt timestamp_field \<rparr>"

text \<open>
  A \<^verbatim>\<open>CSVExtractor\<close> without \<^verbatim>\<open>timestamp_column\<close>: checkpoint type \<^verbatim>\<open>"id"\<close>, and
  \<^verbatim>\<open>extract_timestamp\<close> returns \<^verbatim>\<open>None\<close>.
\<close>

definition csv_source ::
  "runtime \<Rightarrow> string \<Rightarrow> string \<Rightarrow> (string \<Rightarrow> exn + payload list) \<Rightarrow> DataSource" where
  "csv_source rt source_name id_column fetch =
     \<lparr> ds_source_type = CSV,
       ds_source_name = source_name,
       ds_checkpoint_type = ''id'',
       ds_etl_run = None,
       fetch_data = fetch,
       extract_record_id = (\<lambda>rec. py_str rt (dict_get rec id_column (JStr []))),
       extract_timestamp = (\<lambda>rec. None) \<rparr>"

section \<open>Scenarios\<close>

text \<open>
  A runtime for the scenarios: the library functions on the values that occur in them.
  Numbers convert to themselves, text that is no numeral raises \<^verbatim>\<open>ValueError\<close>, and
  the two instants of the scenarios are printed and parsed as ISO text.
\<close>

definition rt0 :: runtime where
  "rt0 =
     \<lparr> rt_float = (\<lambda>v. case v of
                          JInt i \<Rightarrow> Inr (of_int i)
                        | JFloat x \<Rightarrow> Inr x
                        | JBool b \<Rightarrow> Inr (if b then 1 else 0)
                        | JStr s \<Rightarrow> Inl ValueError
                        | _ \<Rightarrow> Inl TypeError),
       rt_int = (\<lambda>x. Inr (py_trunc x)),
       rt_repr = (\<lambda>v. case v of
                         JNull \<Rightarrow> ''None''
                       | JBool b \<Rightarrow> (if b then ''True'' else ''False'')
                       | JInt i \<Rightarrow> (if i = 1 then ''1'' else if i = 2 then ''2'' else ''0'')
                       | _ \<Rightarrow> []),
       rt_fromisoformat =
         (\<lambda>s. if s = ''2024-01-15T10:00:00+00:00'' then Some 1705312800
              else if s = ''2024-01-15T11:00:00+00:00'' then Some 1705316400
              else None),
       rt_isoformat =
         (\<lambda>t. if t = 1705312800 then ''2024-01-15T10:00:00+00:00''
              else if t = 1705316400 then ''2024-01-15T11:00:00+00:00''
              else if t = 1705320000 then ''2024-01-15T12:00:00''
              else ''2024-01-15T13:00:00''),
       rt_coerce_str = (\<lambda>v. None),
       rt_str_exn = e_message \<rparr>"

definition rec_a :: payload where
  "rec_a = [(''id'', JStr ''1''), (''name'', JStr ''A''), (''price'', JInt 10),
            (''created_at'', JStr ''2024-01-15T10:00:00Z'')]"






definition empty_db :: database where
  "empty_db = \<lparr> etl_checkpoints = [], etl_runs = [], raw_data = [], unified_items = [],
                journal = [] \<rparr>"

definition no_faults :: faults where
  "no_faults = \<lparr> f_select = None, f_load = None, f_mark = None \<rparr>"

definition loader_fails :: faults where
  "loader_fails =
     \<lparr> f_select = None,
       f_load = Some (Exn Exception ''Simulated DB failure during load'' [] None),
       f_mark = None \<rparr>"

text \<open>An API source named \<^verbatim>\<open>demo\<close> whose \<^verbatim>\<open>fetch_data\<close> returns the given records.\<close>

definition demo_source :: "payload list \<Rightarrow> DataSource" where
  "demo_source records = api_source rt0 ''demo'' ''created_at'' ''id'' (\<lambda>checkpoint. Inr records)"

text \<open>
  An API source that honours the watermark: it has the one record \<open>rec_a\<close>, and returns
  it only while the watermark is empty.
\<close>

definition since_source :: DataSource where
  "since_source =
     api_source rt0 ''demo'' ''created_at'' ''id''
       (\<lambda>checkpoint. if checkpoint = [] then Inr [rec_a] else Inr [])"

text \<open>The item that \<open>rec_a\<close> normalizes to, as raw row 1.\<close>

definition item_a :: UnifiedItemCreate where
  "item_a =
     \<lparr> c_source_type = API, c_source_name = ''demo'', c_external_id = ''1'',
       c_raw_data_id = 1, c_title = ''A'', c_description = Some [], c_category = None,
       c_url = None, c_image_url = None, c_author = None, c_amount = Some 10,
       c_quantity = None, c_rating = None, c_tags = [],
       c_extra_metadata = [(''price'', JInt 10), (''created_at'', JStr ''2024-01-15T10:00:00Z'')],
       c_status = ACTIVE, c_published_at = Some 1705312800 \<rparr>"

text \<open>
  Two networks for the API client: one answers every request with status 500 at once,
  the other lets every request time out after 30 seconds. The world starts at time 0.
\<close>

definition net_500 :: network where
  "net_500 = (\<lambda>k. (0, Returned \<lparr> status_code = 500, retry_after_header = None,
                                   response_text = ''upstream down'',
                                   raises_for_status = True \<rparr>))"

definition net_timeout :: network where
  "net_timeout = (\<lambda>k. (30, Raised (Exn HttpxTimeoutException [] [] None)))"

definition world0 :: world where
  "world0 = \<lparr> w_clock = 0, w_calls = 0, w_sleeps = [] \<rparr>"

section \<open>Notions used in the proofs\<close>

text \<open>The table after the statements of all items, without the count.\<close>

definition upsert_all ::
  "UnifiedItemCreate list \<Rightarrow> int option \<Rightarrow> datetime \<Rightarrow> UnifiedItem list \<Rightarrow> UnifiedItem list" where
  "upsert_all items rid now rows = fold (\<lambda>item. upsert (excluded item rid now)) items rows"

text \<open>The last item of a list with a given natural key.\<close>

fun last_item :: "UnifiedItemCreate list \<Rightarrow> natural_key \<Rightarrow> UnifiedItemCreate option" where
  "last_item [] k = None"
| "last_item (item # items) k =
     (case last_item items k of
        Some j \<Rightarrow> Some j
      | None \<Rightarrow> if item_key item = k then Some item else None)"

text \<open>A row after the updates of all items with its key: the last one decides.\<close>

definition refresh ::
  "UnifiedItemCreate list \<Rightarrow> int option \<Rightarrow> datetime \<Rightarrow> UnifiedItem \<Rightarrow> UnifiedItem" where
  "refresh items rid now row =
     (case last_item items (row_key row) of
        None \<Rightarrow> row
      | Some item \<Rightarrow> on_conflict_do_update (excluded item rid now) row)"

text \<open>
  The value each field mapping passes as \<^verbatim>\<open>title\<close> and as \<^verbatim>\<open>external_id\<close>, read off
  \<^verbatim>\<open>_normalize_api\<close>, \<^verbatim>\<open>_normalize_csv\<close> and \<^verbatim>\<open>_normalize_rss\<close>.
\<close>

fun title_argument :: "SourceType \<Rightarrow> payload \<Rightarrow> json" where
  "title_argument API rec = dict_get rec ''name'' (dict_get rec ''title'' (JStr ''Untitled''))"
| "title_argument CSV rec =
     dict_get rec ''product_name''
       (dict_get rec ''name'' (dict_get rec ''title'' (JStr ''Untitled'')))"
| "title_argument RSS rec = dict_get rec ''title'' (JStr ''Untitled'')"
| "title_argument FEED rec = JNull"



text \<open>
  A series of requests of one client. Before each request the environment lets some time
  pass (the gap); the results are kept in order.
\<close>

fun request_series ::
  "network \<Rightarrow> string \<Rightarrow> rat list \<Rightarrow> world \<Rightarrow> APIExtractor
     \<Rightarrow> (exn + http_response) list \<times> world \<times> APIExtractor" where
  "request_series net url [] w ax = ([], w, ax)"
| "request_series net url (gap # gaps) w ax =
     (case make_request_with_retry net url (w \<lparr> w_clock := w_clock w + gap \<rparr>) ax of
        (r, w1, ax1) \<Rightarrow>
          (case request_series net url gaps w1 ax1 of
             (rs, w2, ax2) \<Rightarrow> (r # rs, w2, ax2)))"

text \<open>A network on which every call fails at transport level: a timeout or a connection
  failure.\<close>

definition transport_down :: "network \<Rightarrow> bool" where
  "transport_down net \<longleftrightarrow>
     (\<forall>k. \<exists>d e. net k = (d, Raised e)
               \<and> (e_class e = HttpxTimeoutException \<or> e_class e = HttpxNetworkError))"



text \<open>The run row \<^verbatim>\<open>self.etl_run\<close> of a source refers to.\<close>

definition current_run :: "DataSource \<Rightarrow> database \<Rightarrow> ETLRun option" where
  "current_run ds db =
     (case ds_etl_run ds of
        None \<Rightarrow> None
      | Some rid \<Rightarrow> find (\<lambda>r. er_id r = rid) (etl_runs db))"

text \<open>The runs a journal creates and the runs it finalizes, in commit order.\<close>

fun run_starts :: "db_op list \<Rightarrow> int list" where
  "run_starts [] = []"
| "run_starts (OpStartRun rid # ops) = rid # run_starts ops"
| "run_starts (_ # ops) = run_starts ops"

fun run_completions :: "db_op list \<Rightarrow> (int \<times> ETLStatus) list" where
  "run_completions [] = []"
| "run_completions (OpCompleteRun rid status # ops) = (rid, status) # run_completions ops"
| "run_completions (_ # ops) = run_completions ops"

text \<open>The unprocessed raw rows of a source, all of them.\<close>

definition unprocessed :: "DataSource \<Rightarrow> database \<Rightarrow> RawData list" where
  "unprocessed ds db =
     filter (\<lambda>r. rd_source_type r = ds_source_type ds \<and> rd_source_name r = ds_source_name ds
                 \<and> \<not> rd_processed r)
       (raw_data db)"
section \<open>Properties of the loader\<close>

lemma load_loop_count:
  "fst (load_loop items rid now (n, rows)) = n + length items"
  by (induction items arbitrary: n rows) auto

text \<open>
  C10. The count that \<^verbatim>\<open>load\<close> returns is the length of the list it was given,
  whatever the table held before: an item that updates a row counts like one that
  inserts a row, so loading the same items again reports the same count.
\<close>

theorem load_count_is_length:
  "fst (load items rid now rows) = length items
   \<and> fst (load items rid now2 (snd (load items rid now rows))) = fst (load items rid now rows)"
  by (simp add: load_def load_loop_count)

theorem load_count_is_length_witness:
  "fst (load [item_a, item_a] None 1 []) = 2
   \<and> fst (load [item_a, item_a] None 2 (snd (load [item_a, item_a] None 1 []))) = 2"
  using load_count_is_length [of "[item_a, item_a]" None 1 "[]" 2] by simp

section \<open>Idempotence of the loader\<close>

lemma row_key_excluded: "row_key (excluded item rid now) = item_key item"
  by (simp add: row_key_def excluded_def item_key_def)

lemma row_key_on_conflict: "row_key (on_conflict_do_update ex row) = row_key row"
  by (simp add: row_key_def on_conflict_do_update_def)

lemma on_conflict_twice:
  "on_conflict_do_update b (on_conflict_do_update a row) = on_conflict_do_update b row"
  by (simp add: on_conflict_do_update_def)

lemma on_conflict_self: "on_conflict_do_update ex ex = ex"
  by (simp add: on_conflict_do_update_def)

lemma on_conflict_later:
  "on_conflict_do_update (excluded item rid t1) row = row \<Longrightarrow>
   on_conflict_do_update (excluded item rid t2) row = row\<lparr>u_updated_at := t2\<rparr>"
  by (cases row) (simp add: on_conflict_do_update_def excluded_def)

lemma load_loop_rows:
  "snd (load_loop items rid now (n, rows)) = upsert_all items rid now rows"
  by (induction items arbitrary: n rows) (auto simp: upsert_all_def)

lemma map_key_upsert:
  "map row_key (upsert ex rows) =
     (if row_key ex \<in> set (map row_key rows) then map row_key rows
      else map row_key rows @ [row_key ex])"
proof -
  have "map row_key (map (\<lambda>row. if row_key row = row_key ex then on_conflict_do_update ex row else row) rows) = map row_key rows"
    by (induction rows) (simp_all add: row_key_on_conflict)
  then show ?thesis by (simp add: upsert_def del: map_map)
qed

lemma keys_upsert:
  "set (map row_key (upsert ex rows)) = insert (row_key ex) (set (map row_key rows))"
  by (simp only: map_key_upsert) auto

lemma keys_upsert_all:
  "set (map row_key (upsert_all items rid now rows)) = set (map row_key rows) \<union> set (map item_key items)"
  unfolding upsert_all_def
  by (induction items arbitrary: rows) (auto simp: keys_upsert row_key_excluded simp del: set_map)

lemma last_item_snoc:
  "last_item (items @ [item]) k = (if item_key item = k then Some item else last_item items k)"
  by (induction items) (auto split: option.splits)

lemma last_item_None: "last_item items k = None \<longleftrightarrow> k \<notin> set (map item_key items)"
  by (induction items) (auto split: option.splits)

lemma upsert_all_snoc:
  "upsert_all (items @ [item]) rid now rows = upsert (excluded item rid now) (upsert_all items rid now rows)"
  by (simp add: upsert_all_def)

lemma upsert_present:
  "row_key ex \<in> set (map row_key rows) \<Longrightarrow>
   upsert ex rows = map (\<lambda>row. if row_key row = row_key ex then on_conflict_do_update ex row else row) rows"
  by (simp add: upsert_def)

lemma settled:
  "row \<in> set (upsert_all items rid now rows) \<Longrightarrow> last_item items (row_key row) = Some item \<Longrightarrow>
   on_conflict_do_update (excluded item rid now) row = row"
proof (induction items arbitrary: row item rule: rev_induct)
  case Nil
  then show ?case by simp
next
  case (snoc x xs)
  let ?T = "upsert_all xs rid now rows"
  let ?ex = "excluded x rid now"
  from snoc.prems(1) have mem: "row \<in> set (upsert ?ex ?T)"
    by (simp add: upsert_all_snoc)
  show ?case
  proof (cases "row_key row = item_key x")
    case True
    with snoc.prems(2) have [simp]: "item = x" by (simp add: last_item_snoc)
    have "row = ?ex \<or> (\<exists>r'. row = on_conflict_do_update ?ex r')"
    proof (cases "row_key ?ex \<in> set (map row_key ?T)")
      case present: True
      with mem obtain r' where "r' \<in> set ?T"
        and "row = (if row_key r' = row_key ?ex then on_conflict_do_update ?ex r' else r')"
        by (auto simp: upsert_present)
      with True show ?thesis
        by (cases "row_key r' = row_key ?ex") (auto simp: row_key_excluded)
    next
      case absent: False
      with mem have "row \<in> set ?T \<or> row = ?ex" by (auto simp: upsert_def)
      moreover have "row \<notin> set ?T"
      proof
        assume "row \<in> set ?T"
        then have "row_key row \<in> row_key ` set ?T" by (rule imageI)
        with absent True show False by (simp add: row_key_excluded)
      qed
      ultimately show ?thesis by simp
    qed
    then show ?thesis by (auto simp: on_conflict_self on_conflict_twice)
  next
    case False
    with snoc.prems(2) have l: "last_item xs (row_key row) = Some item"
      by (simp add: last_item_snoc)
    from mem False have "row \<in> set ?T"
      by (auto simp: upsert_def row_key_excluded row_key_on_conflict split: if_splits)
    then show ?thesis using l by (rule snoc.IH)
  qed
qed

lemma upsert_all_present:
  "set (map item_key items) \<subseteq> set (map row_key rows) \<Longrightarrow>
   upsert_all items rid now rows = map (refresh items rid now) rows"
proof (induction items rule: rev_induct)
  case Nil
  then show ?case by (simp add: upsert_all_def refresh_def)
next
  case (snoc x xs)
  then have IH: "upsert_all xs rid now rows = map (refresh xs rid now) rows" by simp
  have rk: "\<And>r. row_key (refresh xs rid now r) = row_key r"
    by (simp add: refresh_def row_key_on_conflict split: option.splits)
  from snoc.prems have "item_key x \<in> set (map row_key rows)" by simp
  then have "row_key (excluded x rid now) \<in> set (map row_key (map (refresh xs rid now) rows))"
    by (simp add: row_key_excluded rk comp_def)
  then have "upsert_all (xs @ [x]) rid now rows =
      map (\<lambda>row. if row_key row = item_key x then on_conflict_do_update (excluded x rid now) row else row)
        (map (refresh xs rid now) rows)"
    by (simp only: upsert_all_snoc IH upsert_present row_key_excluded)
  also have "\<dots> = map (refresh (xs @ [x]) rid now) rows"
    unfolding map_map
  proof (rule map_cong [OF refl])
    fix r assume "r \<in> set rows"
    show "((\<lambda>row. if row_key row = item_key x then on_conflict_do_update (excluded x rid now) row else row) \<circ> refresh xs rid now) r
        = refresh (xs @ [x]) rid now r"
      by (auto simp: refresh_def last_item_snoc row_key_on_conflict on_conflict_twice
          split: option.splits)
  qed
  finally show ?case .
qed

lemma load_twice:
  "snd (load items rid t2 (snd (load items rid t1 rows))) =
   map (\<lambda>row. if row_key row \<in> set (map item_key items) then row\<lparr>u_updated_at := t2\<rparr> else row)
     (snd (load items rid t1 rows))"
proof (cases "items = []")
  case True
  then show ?thesis by (simp add: load_def)
next
  case False
  let ?T = "upsert_all items rid t1 rows"
  have sub: "set (map item_key items) \<subseteq> set (map row_key ?T)"
    by (simp only: keys_upsert_all) blast
  have "upsert_all items rid t2 ?T = map (refresh items rid t2) ?T"
    by (rule upsert_all_present [OF sub])
  also have "\<dots> = map (\<lambda>row. if row_key row \<in> set (map item_key items) then row\<lparr>u_updated_at := t2\<rparr> else row) ?T"
  proof (rule map_cong [OF refl])
    fix row assume r: "row \<in> set ?T"
    show "refresh items rid t2 row = (if row_key row \<in> set (map item_key items) then row\<lparr>u_updated_at := t2\<rparr> else row)"
    proof (cases "last_item items (row_key row)")
      case None
      then show ?thesis using last_item_None [of items "row_key row"] by (simp add: refresh_def)
    next
      case (Some item)
      then have "row_key row \<in> set (map item_key items)"
        using last_item_None [of items "row_key row"] by simp
      moreover have "on_conflict_do_update (excluded item rid t2) row = row\<lparr>u_updated_at := t2\<rparr>"
        using settled [OF r Some] by (rule on_conflict_later)
      ultimately show ?thesis using Some by (simp add: refresh_def)
    qed
  qed
  finally show ?thesis using False by (simp add: load_def load_loop_rows)
qed

lemma distinct_upsert:
  "distinct (map row_key rows) \<Longrightarrow> distinct (map row_key (upsert ex rows))"
  by (simp only: map_key_upsert) auto

lemma distinct_upsert_all:
  "distinct (map row_key rows) \<Longrightarrow> distinct (map row_key (upsert_all items rid now rows))"
  unfolding upsert_all_def
  by (induction items arbitrary: rows) (auto simp: distinct_upsert)

lemma distinct_load:
  "distinct (map row_key rows) \<Longrightarrow> distinct (map row_key (snd (load items rid now rows)))"
  by (cases "items = []") (simp_all add: load_def load_loop_rows distinct_upsert_all)

lemma load_item_a_once:
  "snd (load [item_a] None t []) = [excluded item_a None t]"
  by (simp add: load_def upsert_def)

lemma load_item_a_again:
  "snd (load [item_a] None t2 [excluded item_a None t1]) =
     [(excluded item_a None t1)\<lparr>u_updated_at := t2\<rparr>]"
  by (simp add: load_def upsert_def row_key_excluded on_conflict_later [OF on_conflict_self])

text \<open>
  C3, as the code has it. Loading the same items a second time changes no row but in
  \<^verbatim>\<open>updated_at\<close>: every row whose natural key occurs among the items takes the clock
  reading of the second load there, every other row and every other column is as the
  first load left it. No row is added, and a table without duplicate keys stays so.
\<close>

theorem load_twice_up_to_updated_at:
  "snd (load items rid t2 (snd (load items rid t1 rows))) =
     map (\<lambda>row. if row_key row \<in> set (map item_key items) then row\<lparr>u_updated_at := t2\<rparr> else row)
       (snd (load items rid t1 rows))
   \<and> length (snd (load items rid t2 (snd (load items rid t1 rows)))) =
       length (snd (load items rid t1 rows))
   \<and> (distinct (map row_key rows) \<longrightarrow>
        distinct (map row_key (snd (load items rid t2 (snd (load items rid t1 rows))))))"
proof (intro conjI impI)
  show eq: "snd (load items rid t2 (snd (load items rid t1 rows))) =
     map (\<lambda>row. if row_key row \<in> set (map item_key items) then row\<lparr>u_updated_at := t2\<rparr> else row)
       (snd (load items rid t1 rows))"
    by (rule load_twice)
  show "length (snd (load items rid t2 (snd (load items rid t1 rows)))) =
       length (snd (load items rid t1 rows))"
    by (simp only: eq length_map)
  assume "distinct (map row_key rows)"
  then show "distinct (map row_key (snd (load items rid t2 (snd (load items rid t1 rows)))))"
    by (intro distinct_load)
qed

theorem load_twice_up_to_updated_at_witness:
  "snd (load [item_a] None 2 (snd (load [item_a] None 1 []))) =
     [(excluded item_a None 1)\<lparr>u_updated_at := 2\<rparr>]
   \<and> length (snd (load [item_a] None 2 (snd (load [item_a] None 1 [])))) = 1
   \<and> distinct (map row_key (snd (load [item_a] None 2 (snd (load [item_a] None 1 [])))))"
proof -
  have d: "distinct (map row_key ([] :: UnifiedItem list))" by simp
  from load_twice_up_to_updated_at [of "[item_a]" None 2 1 "[]"] d
  have "distinct (map row_key (snd (load [item_a] None 2 (snd (load [item_a] None 1 [])))))"
    by blast
  then show ?thesis by (simp add: load_item_a_once load_item_a_again)
qed

text \<open>
  C3 as stated fails: with the clock at 1 for the first load and at 2 for the second, the
  table after two loads of \<open>item_a\<close> differs from the table after one load, whether
  that one load ran at 1 or at 2.
\<close>

theorem load_twice_counterexample:
  "snd (load [item_a] None 2 (snd (load [item_a] None 1 []))) \<noteq> snd (load [item_a] None 1 [])
   \<and> snd (load [item_a] None 2 (snd (load [item_a] None 1 []))) \<noteq> snd (load [item_a] None 2 [])"
proof -
  have a: "u_updated_at ((excluded item_a None 1)\<lparr>u_updated_at := 2\<rparr>) \<noteq>
           u_updated_at (excluded item_a None 1)"
    by (simp add: excluded_def)
  have b: "u_created_at ((excluded item_a None 1)\<lparr>u_updated_at := 2\<rparr>) \<noteq>
           u_created_at (excluded item_a None 2)"
    by (simp add: excluded_def)
  have a': "(excluded item_a None 1)\<lparr>u_updated_at := 2\<rparr> \<noteq> excluded item_a None 1"
  proof
    assume e: "(excluded item_a None 1)\<lparr>u_updated_at := 2\<rparr> = excluded item_a None 1"
    have "u_updated_at ((excluded item_a None 1)\<lparr>u_updated_at := 2\<rparr>) =
          u_updated_at (excluded item_a None 1)"
      by (simp only: e)
    with a show False by (rule notE)
  qed
  have b': "(excluded item_a None 1)\<lparr>u_updated_at := 2\<rparr> \<noteq> excluded item_a None 2"
  proof
    assume e: "(excluded item_a None 1)\<lparr>u_updated_at := 2\<rparr> = excluded item_a None 2"
    have "u_created_at ((excluded item_a None 1)\<lparr>u_updated_at := 2\<rparr>) =
          u_created_at (excluded item_a None 2)"
      by (simp only: e)
    with b show False by (rule notE)
  qed
  show ?thesis
    using a' b' by (simp add: load_item_a_once load_item_a_again)
qed

section \<open>The watermark and the resume after a failed load\<close>

text \<open>
  C1 fails on the code. The source \<open>demo\<close> has no checkpoint, \<^verbatim>\<open>fetch_data\<close> returns
  the one record \<open>rec_a\<close> and \<^verbatim>\<open>PostgresLoader.load\<close> raises. The run ends with a
  \<^verbatim>\<open>LoadError\<close>, its run row is \<^verbatim>\<open>FAILED\<close>, the raw row is unprocessed and the
  unified table is empty; yet the watermark, empty before the run, is the timestamp of
  \<open>rec_a\<close> after it, and the checkpoint row says \<^verbatim>\<open>SUCCESS\<close>: \<^verbatim>\<open>run_incremental\<close>
  committed both before the load phase began.
\<close>

theorem load_failure_advances_checkpoint:
  "(case run rt0 loader_fails 1705320000 (demo_source [rec_a]) empty_db of
      (r, ds, db) \<Rightarrow>
        (map_sum e_class rr_status r,
         current_checkpoint_value (demo_source [rec_a]) empty_db,
         current_checkpoint_value (demo_source [rec_a]) db,
         map cp_status (etl_checkpoints db),
         map er_status (etl_runs db),
         map rd_processed (raw_data db),
         unified_items db))
   = (Inl LoadError, [], ''2024-01-15T10:00:00+00:00'', [SUCCESS], [FAILED], [False], [])"
  by code_simp

text \<open>
  C2 fails on the code. Run 1 of a source that honours the watermark persists \<open>rec_a\<close>
  and fails in the load phase. Run 2, with no failure injected and the same extractor,
  fetches with the watermark run 1 left, gets no record and returns
  \<^verbatim>\<open>"No new data"\<close> before the sweep of unprocessed rows: the raw row of run 1 is still
  unprocessed and the unified table is still empty.
\<close>

theorem resume_skipped_when_nothing_new:
  "(case run rt0 loader_fails 1705320000 since_source empty_db of
      (r1, ds1, db1) \<Rightarrow>
        (case run rt0 no_faults 1705320060 ds1 db1 of
           (r2, ds2, db2) \<Rightarrow>
             (map_sum e_class rr_status r1,
              map rd_processed (raw_data db1),
              map_sum e_class
                (\<lambda>r. (rr_status r, rr_records_extracted r, rr_records_loaded r, rr_message r)) r2,
              map rd_processed (raw_data db2),
              unified_items db2)))
   = (Inl LoadError, [False], Inr (''success'', 0, 0, Some ''No new data''), [False], [])"
  by code_simp

section \<open>The API client on an exhausted retry budget\<close>

text \<open>
  C8 fails on the code for HTTP 5xx. With three attempts and base delay 1, a server that
  always answers 500 is asked three times, with sleeps of 1 and 2 seconds between the
  attempts. The \<^verbatim>\<open>NetworkError\<close> of the last attempt is raised inside the \<^verbatim>\<open>try\<close>
  body and taken by \<^verbatim>\<open>except Exception\<close>: what leaves the function is an
  \<^verbatim>\<open>APIExtractionError\<close> that is not retryable and whose context has no response
  body (the \<^verbatim>\<open>NetworkError\<close> is only its cause), and the failure is recorded twice.
\<close>

theorem server_error_exhaustion_is_not_network_error:
  "(case make_request_with_retry net_500 ''https://api.example.com/data'' world0
           (APIExtractor_init ''demo'' 3 1 30) of
      (r, w, ax) \<Rightarrow>
        (map_sum (\<lambda>e. (e_class e, is_RetryableError e, map fst (e_context e),
                        map_option e_class (e_original e)))
           status_code r,
         w_calls w, w_sleeps w, circuit_breaker_failures ax))
   = (Inl (APIExtractionError, False, [''api_url'', ''source_name'', ''retry_count''],
           Some NetworkError),
      3, [1, 2], 2)"
  by code_simp

text \<open>
  On timeouts the same budget ends as the claim says: a retryable \<^verbatim>\<open>NetworkError\<close>
  with url, source name and attempt count, and one recorded failure.
\<close>

lemma timeout_exhaustion:
  "(case make_request_with_retry net_timeout ''https://api.example.com/data'' world0
           (APIExtractor_init ''demo'' 3 1 30) of
      (r, w, ax) \<Rightarrow>
        (map_sum (\<lambda>e. (e_class e, is_RetryableError e, map fst (e_context e)))
           status_code r,
         w_calls w, w_sleeps w, circuit_breaker_failures ax))
   = (Inl (NetworkError, True, [''api_url'', ''source_name'', ''timeout'', ''retry_count'']),
      3, [1, 2], 1)"
  by code_simp


section \<open>The circuit breaker\<close>

text \<open>
  A recorded failure adds one to the tally and opens the breaker when the tally reaches the
  threshold; it changes nothing else of the client.
\<close>


lemma record_failure_params [simp]:
  "circuit_breaker_threshold (record_failure now ax) = circuit_breaker_threshold ax"
  "circuit_breaker_timeout (record_failure now ax) = circuit_breaker_timeout ax"
  "ax_max_retries (record_failure now ax) = ax_max_retries ax"
  "ax_source_name (record_failure now ax) = ax_source_name ax"
  "circuit_breaker_failures (record_failure now ax) = circuit_breaker_failures ax + 1"
  by (simp_all add: record_failure_def Let_def)

lemma record_failure_open_until:
  "circuit_breaker_open_until (record_failure now ax) =
     (if circuit_breaker_threshold ax \<le> circuit_breaker_failures ax + 1
      then Some (now + circuit_breaker_timeout ax) else circuit_breaker_open_until ax)"
  by (simp add: record_failure_def Let_def)

lemma attempt_once_calls:
  "attempt_once net url ax attempt w = Continue w' e \<Longrightarrow> w_calls w' = w_calls w + 1"
  "attempt_once net url ax attempt w = Leave r w' ax' \<Longrightarrow> w_calls w' = w_calls w + 1"
  by (auto simp: attempt_once_def on_response_def handle_exception_def handle_transport_def
      sleep_def Let_def split: prod.splits get_outcome.splits if_splits sum.splits option.splits)

lemma request_loop_calls_mono:
  "w_calls w \<le> w_calls (fst (snd (request_loop net url ax attempt last_exception w)))"
proof (induction net url ax attempt last_exception w rule: request_loop.induct)
  case (1 net url ax attempt last_exception w)
  show ?case
  proof (cases "attempt < ax_max_retries ax")
    case False
    then show ?thesis by (simp add: request_loop.simps [of net url ax attempt])
  next
    case True
    show ?thesis
    proof (cases "attempt_once net url ax attempt w")
      case (Continue w' e)
      from "1.IH" [OF True Continue] attempt_once_calls(1) [OF Continue] True Continue
      show ?thesis by (simp add: request_loop.simps [of net url ax attempt])
    next
      case (Leave r w' ax')
      from attempt_once_calls(2) [OF Leave] True Leave
      show ?thesis by (simp add: request_loop.simps [of net url ax attempt])
    qed
  qed
qed

lemma request_loop_reaches_network:
  assumes "attempt < ax_max_retries ax"
  shows "w_calls w < w_calls (fst (snd (request_loop net url ax attempt last_exception w)))"
proof (cases "attempt_once net url ax attempt w")
  case (Continue w' e)
  have "w_calls w' \<le> w_calls (fst (snd (request_loop net url ax (attempt + 1)
          (case e of None \<Rightarrow> last_exception | Some x \<Rightarrow> Some x) w')))"
    by (rule request_loop_calls_mono)
  with attempt_once_calls(1) [OF Continue] assms Continue
  show ?thesis by (simp add: request_loop.simps [of net url ax attempt])
next
  case (Leave r w' ax')
  from attempt_once_calls(2) [OF Leave] assms Leave
  show ?thesis by (simp add: request_loop.simps [of net url ax attempt])
qed

text \<open>The gate of an open breaker, before and after the end of the cooldown.\<close>

lemma open_breaker_refuses:
  assumes "circuit_breaker_open_until ax = Some open_until" and "w_clock w < open_until"
  shows "\<exists>e. make_request_with_retry net url w ax = (Inl e, w, ax)
             \<and> e_class e = APIExtractionError"
  using assms by (simp add: make_request_with_retry_def is_circuit_open_def)

lemma open_breaker_resets:
  assumes "circuit_breaker_open_until ax = Some open_until" and "open_until \<le> w_clock w"
    and "0 < ax_max_retries ax"
  shows "is_circuit_open (w_clock w) ax =
           (False, ax \<lparr> circuit_breaker_failures := 0, circuit_breaker_open_until := None \<rparr>)"
    and "make_request_with_retry net url w ax =
           request_loop net url
             (ax \<lparr> circuit_breaker_failures := 0, circuit_breaker_open_until := None \<rparr>) 0 None w"
    and "w_calls w < w_calls (fst (snd (make_request_with_retry net url w ax)))"
proof -
  let ?closed = "ax \<lparr> circuit_breaker_failures := 0, circuit_breaker_open_until := None \<rparr>"
  from assms show g: "is_circuit_open (w_clock w) ax = (False, ?closed)"
    by (simp add: is_circuit_open_def)
  then show m: "make_request_with_retry net url w ax = request_loop net url ?closed 0 None w"
    by (simp add: make_request_with_retry_def)
  have "0 < ax_max_retries ?closed" using assms(3) by simp
  then have "w_calls w < w_calls (fst (snd (request_loop net url ?closed 0 None w)))"
    by (rule request_loop_reaches_network)
  with m show "w_calls w < w_calls (fst (snd (make_request_with_retry net url w ax)))" by simp
qed

lemma transport_loop:
  assumes "transport_down net" and "attempt < ax_max_retries ax"
  shows "\<exists>e w'. request_loop net url ax attempt last_exception w =
                   (Inl e, w', record_failure (w_clock w') ax)
               \<and> e_class e = NetworkError \<and> is_RetryableError e
               \<and> map_of (e_context e) ''api_url'' = Some (CStr url)
               \<and> map_of (e_context e) ''source_name'' = Some (CStr (ax_source_name ax))
               \<and> map_of (e_context e) ''retry_count'' = Some (CInt (int (ax_max_retries ax)))
               \<and> w_calls w' = w_calls w + (ax_max_retries ax - attempt)"
  using assms
proof (induction net url ax attempt last_exception w rule: request_loop.induct)
  case (1 net url ax attempt last_exception w)
  from "1.prems"(1) obtain d e where nk: "net (w_calls w) = (d, Raised e)"
    and cl: "e_class e = HttpxTimeoutException \<or> e_class e = HttpxNetworkError"
    unfolding transport_down_def by blast
  let ?w1 = "w \<lparr> w_clock := w_clock w + d, w_calls := w_calls w + 1 \<rparr>"
  have ao: "attempt_once net url ax attempt w = handle_transport url ax attempt ?w1 e"
    using nk cl by (auto simp: attempt_once_def Let_def)
  show ?case
  proof (cases "attempt + 1 < ax_max_retries ax")
    case True
    then have st: "attempt_once net url ax attempt w = Continue (sleep (backoff ax attempt) ?w1) (Some e)"
      by (simp add: ao handle_transport_def)
    from "1.IH" [OF "1.prems"(2) st "1.prems"(1) True]
    obtain e' w' where r: "request_loop net url ax (attempt + 1) (Some e) (sleep (backoff ax attempt) ?w1) =
                   (Inl e', w', record_failure (w_clock w') ax)"
      and p: "e_class e' = NetworkError" "is_RetryableError e'"
        "map_of (e_context e') ''api_url'' = Some (CStr url)"
        "map_of (e_context e') ''source_name'' = Some (CStr (ax_source_name ax))"
        "map_of (e_context e') ''retry_count'' = Some (CInt (int (ax_max_retries ax)))"
      and c: "w_calls w' = w_calls (sleep (backoff ax attempt) ?w1) + (ax_max_retries ax - (attempt + 1))"
      by auto
    have "request_loop net url ax attempt last_exception w = (Inl e', w', record_failure (w_clock w') ax)"
      using "1.prems"(2) st r by (simp add: request_loop.simps [of net url ax attempt])
    moreover have "w_calls w' = w_calls w + (ax_max_retries ax - attempt)"
      using c True by (simp add: sleep_def)
    ultimately show ?thesis using p by blast
  next
    case False
    with "1.prems"(2) have last: "attempt + 1 = ax_max_retries ax" by simp
    then obtain e' where st: "attempt_once net url ax attempt w =
        Leave (Inl e') ?w1 (record_failure (w_clock ?w1) ax)"
      and p: "e_class e' = NetworkError" "is_RetryableError e'"
        "map_of (e_context e') ''api_url'' = Some (CStr url)"
        "map_of (e_context e') ''source_name'' = Some (CStr (ax_source_name ax))"
        "map_of (e_context e') ''retry_count'' = Some (CInt (int (ax_max_retries ax)))"
      using False by (auto simp: ao handle_transport_def is_RetryableError_def)
    have "request_loop net url ax attempt last_exception w =
            (Inl e', ?w1, record_failure (w_clock ?w1) ax)"
      using "1.prems"(2) st by (simp add: request_loop.simps [of net url ax attempt])
    moreover have "w_calls ?w1 = w_calls w + (ax_max_retries ax - attempt)"
      using last by simp
    ultimately show ?thesis using p by blast
  qed
qed

text \<open>One request on a network that is down, through a closed gate.\<close>

lemma transport_request:
  assumes "transport_down net" and "0 < ax_max_retries ax"
    and "circuit_breaker_open_until ax = None"
  shows "\<exists>e w'. make_request_with_retry net url w ax =
                   (Inl e, w', record_failure (w_clock w') ax)
               \<and> e_class e = NetworkError \<and> is_RetryableError e
               \<and> w_calls w' = w_calls w + ax_max_retries ax"
proof -
  from assms(3) have "make_request_with_retry net url w ax = request_loop net url ax 0 None w"
    by (simp add: make_request_with_retry_def is_circuit_open_def)
  with transport_loop [OF assms(1), of 0 ax url None w] assms(2) show ?thesis by auto
qed

lemma transport_series:
  assumes "transport_down net" and "0 < ax_max_retries ax"
    and "circuit_breaker_open_until ax = None"
    and "circuit_breaker_failures ax + length gaps \<le> circuit_breaker_threshold ax"
  shows "\<exists>rs w' ax'. request_series net url gaps w ax = (rs, w', ax')
           \<and> length rs = length gaps
           \<and> (\<forall>r \<in> set rs. \<exists>e. r = Inl e \<and> e_class e = NetworkError)
           \<and> w_calls w' = w_calls w + length gaps * ax_max_retries ax
           \<and> circuit_breaker_failures ax' = circuit_breaker_failures ax + length gaps
           \<and> circuit_breaker_open_until ax' =
               (if gaps \<noteq> [] \<and> circuit_breaker_failures ax + length gaps = circuit_breaker_threshold ax
                then Some (w_clock w' + circuit_breaker_timeout ax) else None)
           \<and> circuit_breaker_threshold ax' = circuit_breaker_threshold ax
           \<and> circuit_breaker_timeout ax' = circuit_breaker_timeout ax
           \<and> ax_max_retries ax' = ax_max_retries ax"
  using assms
proof (induction gaps arbitrary: w ax)
  case Nil
  then show ?case by simp
next
  case (Cons gap gaps)
  let ?w0 = "w \<lparr> w_clock := w_clock w + gap \<rparr>"
  from transport_request [OF Cons.prems(1,2,3), of url ?w0]
  obtain e w1 where rq: "make_request_with_retry net url ?w0 ax =
        (Inl e, w1, record_failure (w_clock w1) ax)"
    and e: "e_class e = NetworkError" and c1: "w_calls w1 = w_calls w + ax_max_retries ax"
    by auto
  let ?ax1 = "record_failure (w_clock w1) ax"
  show ?case
  proof (cases "gaps = []")
    case True
    with rq e c1 Cons.prems(3,4) show ?thesis
      by (auto simp: record_failure_open_until)
  next
    case False
    with Cons.prems(4) have lt: "circuit_breaker_failures ax + 1 < circuit_breaker_threshold ax"
      by (cases gaps) auto
    then have o1: "circuit_breaker_open_until ?ax1 = None"
      using Cons.prems(3) by (simp add: record_failure_open_until)
    have p1: "0 < ax_max_retries ?ax1" using Cons.prems(2) by simp
    have b1: "circuit_breaker_failures ?ax1 + length gaps \<le> circuit_breaker_threshold ?ax1"
      using Cons.prems(4) by simp
    from Cons.IH [OF Cons.prems(1) p1 o1 b1, of w1]
    obtain rs w' ax' where s: "request_series net url gaps w1 ?ax1 = (rs, w', ax')"
      and l: "length rs = length gaps"
      and a: "\<forall>r \<in> set rs. \<exists>e. r = Inl e \<and> e_class e = NetworkError"
      and c: "w_calls w' = w_calls w1 + length gaps * ax_max_retries ?ax1"
      and f: "circuit_breaker_failures ax' = circuit_breaker_failures ?ax1 + length gaps"
      and o: "circuit_breaker_open_until ax' =
               (if gaps \<noteq> [] \<and> circuit_breaker_failures ?ax1 + length gaps = circuit_breaker_threshold ?ax1
                then Some (w_clock w' + circuit_breaker_timeout ?ax1) else None)"
      and k: "circuit_breaker_threshold ax' = circuit_breaker_threshold ?ax1"
        "circuit_breaker_timeout ax' = circuit_breaker_timeout ?ax1"
        "ax_max_retries ax' = ax_max_retries ?ax1"
      by blast
    have "request_series net url (gap # gaps) w ax = (Inl e # rs, w', ax')"
      using rq s by simp
    moreover have "w_calls w' = w_calls w + length (gap # gaps) * ax_max_retries ax"
      using c c1 by simp
    ultimately show ?thesis using l a e f o k False by auto
  qed
qed


text \<open>
  Requests that fail on the transport (timeouts, connection failures) are counted once
  each: as many of them as the threshold, from a closed breaker with an empty tally, open
  the breaker at the end of the last one. Until the cooldown is over the next request is
  refused with the world unchanged, whatever the network would answer; from then on the
  tally is cleared and the request reaches the network.
\<close>

lemma consecutive_transport_failures_trip_breaker:
  assumes "transport_down net" and "0 < ax_max_retries ax"
    and "circuit_breaker_failures ax = 0" and "circuit_breaker_open_until ax = None"
    and "length gaps = circuit_breaker_threshold ax" and "0 < circuit_breaker_threshold ax"
  shows "\<exists>rs w' ax'. request_series net url gaps w ax = (rs, w', ax')
           \<and> length rs = circuit_breaker_threshold ax
           \<and> (\<forall>r \<in> set rs. \<exists>e. r = Inl e \<and> e_class e = NetworkError)
           \<and> w_calls w' = w_calls w + circuit_breaker_threshold ax * ax_max_retries ax
           \<and> circuit_breaker_open_until ax' = Some (w_clock w' + circuit_breaker_timeout ax)
           \<and> (\<forall>net' gap. gap < circuit_breaker_timeout ax \<longrightarrow>
                 (\<exists>e. make_request_with_retry net' url (w' \<lparr> w_clock := w_clock w' + gap \<rparr>) ax' =
                        (Inl e, w' \<lparr> w_clock := w_clock w' + gap \<rparr>, ax')
                      \<and> e_class e = APIExtractionError))
           \<and> (\<forall>net' gap. circuit_breaker_timeout ax \<le> gap \<longrightarrow>
                 is_circuit_open (w_clock w' + gap) ax' =
                   (False, ax' \<lparr> circuit_breaker_failures := 0, circuit_breaker_open_until := None \<rparr>)
                 \<and> w_calls w' < w_calls (fst (snd (make_request_with_retry net' url
                                     (w' \<lparr> w_clock := w_clock w' + gap \<rparr>) ax'))))"
proof -
  from assms(5,6) have ne: "gaps \<noteq> []" by auto
  from assms(3,5) have b: "circuit_breaker_failures ax + length gaps \<le> circuit_breaker_threshold ax"
    by simp
  from transport_series [OF assms(1,2,4) b, of url w]
  obtain rs w' ax' where s: "request_series net url gaps w ax = (rs, w', ax')"
    and l: "length rs = length gaps"
    and a: "\<forall>r \<in> set rs. \<exists>e. r = Inl e \<and> e_class e = NetworkError"
    and c: "w_calls w' = w_calls w + length gaps * ax_max_retries ax"
    and o: "circuit_breaker_open_until ax' =
               (if gaps \<noteq> [] \<and> circuit_breaker_failures ax + length gaps = circuit_breaker_threshold ax
                then Some (w_clock w' + circuit_breaker_timeout ax) else None)"
    and m: "ax_max_retries ax' = ax_max_retries ax"
    by blast
  from o ne assms(3,5)
  have o': "circuit_breaker_open_until ax' = Some (w_clock w' + circuit_breaker_timeout ax)"
    by simp
  have within: "\<exists>e. make_request_with_retry net' url (w' \<lparr> w_clock := w_clock w' + gap \<rparr>) ax' =
                        (Inl e, w' \<lparr> w_clock := w_clock w' + gap \<rparr>, ax')
                      \<and> e_class e = APIExtractionError"
    if "gap < circuit_breaker_timeout ax" for net' gap
    using open_breaker_refuses [OF o', of "w' \<lparr> w_clock := w_clock w' + gap \<rparr>" net' url] that
    by simp
  have after: "is_circuit_open (w_clock w' + gap) ax' =
                   (False, ax' \<lparr> circuit_breaker_failures := 0, circuit_breaker_open_until := None \<rparr>)
                 \<and> w_calls w' < w_calls (fst (snd (make_request_with_retry net' url
                                     (w' \<lparr> w_clock := w_clock w' + gap \<rparr>) ax')))"
    if "circuit_breaker_timeout ax \<le> gap" for net' gap
  proof -
    have le: "w_clock w' + circuit_breaker_timeout ax \<le> w_clock (w' \<lparr> w_clock := w_clock w' + gap \<rparr>)"
      using that by simp
    have pos: "0 < ax_max_retries ax'" using m assms(2) by simp
    from open_breaker_resets(1) [OF o' le pos] open_breaker_resets(3) [OF o' le pos, of net' url]
    show ?thesis by simp
  qed
  from s l a c o' within after assms(5) show ?thesis by auto
qed

lemma transport_down_net_timeout: "transport_down net_timeout"
  by (simp add: transport_down_def net_timeout_def)

lemma five_timeouts_trip_breaker:
  "\<exists>rs w' ax'. request_series net_timeout url [0, 0, 0, 0, 0] world0
                    (APIExtractor_init ''demo'' 3 1 30) = (rs, w', ax')
           \<and> length rs = 5 \<and> w_calls w' = 15
           \<and> circuit_breaker_open_until ax' = Some (w_clock w' + 60)
           \<and> (\<exists>e. make_request_with_retry net_500 url (w' \<lparr> w_clock := w_clock w' + 59 \<rparr>) ax' =
                        (Inl e, w' \<lparr> w_clock := w_clock w' + 59 \<rparr>, ax'))
           \<and> w_calls w' < w_calls (fst (snd (make_request_with_retry net_500 url
                                     (w' \<lparr> w_clock := w_clock w' + 60 \<rparr>) ax')))"
proof -
  let ?ax = "APIExtractor_init ''demo'' 3 1 30"
  have p: "0 < ax_max_retries ?ax" "circuit_breaker_failures ?ax = 0"
    "circuit_breaker_open_until ?ax = None" "length [0::rat, 0, 0, 0, 0] = circuit_breaker_threshold ?ax"
    "0 < circuit_breaker_threshold ?ax" "circuit_breaker_timeout ?ax = 60" "ax_max_retries ?ax = 3"
    "circuit_breaker_threshold ?ax = 5"
    by (simp_all add: APIExtractor_init_def)
  from consecutive_transport_failures_trip_breaker
    [OF transport_down_net_timeout p(1) p(2) p(3) p(4) p(5), of url world0]
  obtain rs w' ax' where s: "request_series net_timeout url [0, 0, 0, 0, 0] world0 ?ax = (rs, w', ax')"
    and l: "length rs = circuit_breaker_threshold ?ax"
    and c: "w_calls w' = w_calls world0 + circuit_breaker_threshold ?ax * ax_max_retries ?ax"
    and o: "circuit_breaker_open_until ax' = Some (w_clock w' + circuit_breaker_timeout ?ax)"
    and i: "\<forall>net' gap. gap < circuit_breaker_timeout ?ax \<longrightarrow>
                 (\<exists>e. make_request_with_retry net' url (w' \<lparr> w_clock := w_clock w' + gap \<rparr>) ax' =
                        (Inl e, w' \<lparr> w_clock := w_clock w' + gap \<rparr>, ax')
                      \<and> e_class e = APIExtractionError)"
    and a: "\<forall>net' gap. circuit_breaker_timeout ?ax \<le> gap \<longrightarrow>
                 is_circuit_open (w_clock w' + gap) ax' =
                   (False, ax' \<lparr> circuit_breaker_failures := 0, circuit_breaker_open_until := None \<rparr>)
                 \<and> w_calls w' < w_calls (fst (snd (make_request_with_retry net' url
                                     (w' \<lparr> w_clock := w_clock w' + gap \<rparr>) ax')))"
    by blast
  from i [rule_format, of 59 net_500] p(6)
  have i': "\<exists>e. make_request_with_retry net_500 url (w' \<lparr> w_clock := w_clock w' + 59 \<rparr>) ax' =
                        (Inl e, w' \<lparr> w_clock := w_clock w' + 59 \<rparr>, ax')" by auto
  from a [rule_format, of 60 net_500] p(6)
  have a': "w_calls w' < w_calls (fst (snd (make_request_with_retry net_500 url
                                     (w' \<lparr> w_clock := w_clock w' + 60 \<rparr>) ax')))" by simp
  from l c o p(6,7,8) have "length rs = 5" "w_calls w' = 15"
    "circuit_breaker_open_until ax' = Some (w_clock w' + 60)"
    by (simp_all add: world0_def)
  with s i' a' show ?thesis by blast
qed

text \<open>
  C5 fails on the code for requests that fail on HTTP 5xx. The client of the scenarios
  (three attempts, threshold 5, cooldown 60) sends five requests 100 seconds apart to a
  server that always answers 500. Every request fails after three calls, and each failed
  request is recorded twice (the \<^verbatim>\<open>NetworkError\<close> of the last attempt is raised inside
  the \<^verbatim>\<open>try\<close> body and recorded again by \<^verbatim>\<open>except Exception\<close>). The breaker
  therefore opens at the third request already, its cooldown is over before the fourth,
  which clears the tally, and after the fifth consecutive failed request the tally is 4
  and the breaker is closed: the sixth request, sent at once, calls the network three
  more times instead of failing immediately.
\<close>

theorem five_server_errors_leave_breaker_closed:
  "(case request_series net_500 ''https://api.example.com/data'' [100, 100, 100, 100, 100] world0
           (APIExtractor_init ''demo'' 3 1 30) of
      (rs, w, ax) \<Rightarrow>
        (map (map_sum e_class status_code) rs, w_calls w,
         circuit_breaker_failures ax, circuit_breaker_open_until ax,
         (case make_request_with_retry net_500 ''https://api.example.com/data'' w ax of
            (r, w', ax') \<Rightarrow> (map_sum e_class status_code r, w_calls w'))))
   = ([Inl APIExtractionError, Inl APIExtractionError, Inl APIExtractionError,
       Inl APIExtractionError, Inl APIExtractionError], 15, 4, None,
      (Inl APIExtractionError, 18))"
  by code_simp

text \<open>
  In the same scenario the breaker is open after three failed requests, with a tally of 6.
\<close>

lemma three_server_errors_open_breaker:
  "(case request_series net_500 ''https://api.example.com/data'' [100, 100, 100] world0
           (APIExtractor_init ''demo'' 3 1 30) of
      (rs, w, ax) \<Rightarrow>
        (length rs, w_calls w, w_clock w, circuit_breaker_failures ax, circuit_breaker_open_until ax))
   = (3, 9, 309, 6, Some 369)"
  by code_simp

section \<open>Normalization failures\<close>


lemma title_field_Untitled: "title_field rt (JStr ''Untitled'') = Some ''Untitled''"
  by (simp add: title_field_def str_field_def clean_title_def Let_def strip_def is_space_def)



lemma init_title:
  "UnifiedItemCreate_init rt a = Inr item \<Longrightarrow> c_title item = the (title_field rt (a_title a))"
  by (auto simp: UnifiedItemCreate_init_def split: if_splits)




lemma normalized_title:
  assumes "normalize rt source_type source_name rec i = Inr item"
  shows "c_title item = the (title_field rt (title_argument source_type rec))"
proof (cases source_type)
  case API
  with assms show ?thesis
    by (auto simp: normalize_def normalize_api_def dest!: init_title split: sum.splits)
next
  case CSV
  with assms show ?thesis
    by (auto simp: normalize_def normalize_csv_def dest!: init_title split: sum.splits)
next
  case RSS
  with assms show ?thesis
    by (auto simp: normalize_def normalize_rss_def dest!: init_title split: sum.splits)
next
  case FEED
  with assms show ?thesis by (simp add: normalize_def)
qed



lemma normalize_records_details:
  "map ed_raw_data_id (snd (snd (normalize_records rt st sn raws))) =
     fst (snd (normalize_records rt st sn raws))"
  by (induction raws) (auto split: prod.splits sum.splits)



lemma missing_title_defaults:
  assumes "title_argument source_type rec = JStr ''Untitled''"
    and "normalize rt source_type source_name rec i = Inr item"
  shows "c_title item = ''Untitled''"
  using normalized_title [OF assms(2)] assms(1) by (simp add: title_field_Untitled)









section \<open>The statements of the source client on the tables\<close>

lemma run_starts_append [simp]: "run_starts (xs @ ys) = run_starts xs @ run_starts ys"
  by (induction xs rule: run_starts.induct) simp_all

lemma run_completions_append [simp]:
  "run_completions (xs @ ys) = run_completions xs @ run_completions ys"
  by (induction xs rule: run_completions.induct) simp_all






lemma complete_etl_run_tables [simp]:
  "etl_checkpoints (complete_etl_run ds st a b c wm em now db) = etl_checkpoints db"
  "raw_data (complete_etl_run ds st a b c wm em now db) = raw_data db"
  "unified_items (complete_etl_run ds st a b c wm em now db) = unified_items db"
  by (simp_all add: complete_etl_run_def split: option.splits)

lemma create_or_update_checkpoint_tables [simp]:
  "etl_runs (create_or_update_checkpoint ds v st n em now db) = etl_runs db"
  "raw_data (create_or_update_checkpoint ds v st n em now db) = raw_data db"
  "unified_items (create_or_update_checkpoint ds v st n em now db) = unified_items db"
  "journal (create_or_update_checkpoint ds v st n em now db) = journal db @ [OpCheckpoint v st]"
  by (simp_all add: create_or_update_checkpoint_def split: option.splits)

lemma mark_processed_tables [simp]:
  "etl_checkpoints (mark_processed ds raws failed db) = etl_checkpoints db"
  "etl_runs (mark_processed ds raws failed db) = etl_runs db"
  "unified_items (mark_processed ds raws failed db) = unified_items db"
  "journal (mark_processed ds raws failed db) =
     journal db @ [OpMarkProcessed (filter (\<lambda>i. i \<notin> set failed) (map rd_id raws))]"
  by (simp_all add: mark_processed_def Let_def)

lemma save_raw_data_tables [simp]:
  "etl_checkpoints (snd (save_raw_data ds records now db)) = etl_checkpoints db"
  "etl_runs (snd (save_raw_data ds records now db)) = etl_runs db"
  "unified_items (snd (save_raw_data ds records now db)) = unified_items db"
  "raw_data (snd (save_raw_data ds records now db)) =
     raw_data db @ new_raw_rows ds records now (int (length (raw_data db)))"
  "journal (snd (save_raw_data ds records now db)) =
     journal db @ [OpSaveRaw (map rd_id (new_raw_rows ds records now (int (length (raw_data db)))))]"
  "fst (save_raw_data ds records now db) = new_raw_rows ds records now (int (length (raw_data db)))"
  by (simp_all add: save_raw_data_def Let_def)

lemma start_etl_run_tables [simp]:
  "etl_checkpoints (snd (start_etl_run ds cv now db)) = etl_checkpoints db"
  "raw_data (snd (start_etl_run ds cv now db)) = raw_data db"
  "unified_items (snd (start_etl_run ds cv now db)) = unified_items db"
  "journal (snd (start_etl_run ds cv now db)) =
     journal db @ [OpStartRun (int (length (etl_runs db)) + 1)]"
  "fst (start_etl_run ds cv now db) = ds \<lparr> ds_etl_run := Some (int (length (etl_runs db)) + 1) \<rparr>"
  by (simp_all add: start_etl_run_def Let_def)

lemma get_checkpoint_cong:
  assumes "etl_checkpoints db' = etl_checkpoints db"
    and "ds_source_type ds' = ds_source_type ds" and "ds_source_name ds' = ds_source_name ds"
  shows "get_checkpoint ds' db' = get_checkpoint ds db"
  using assms by (simp add: get_checkpoint_def)



lemma current_run_cong:
  assumes "etl_runs db' = etl_runs db" and "ds_etl_run ds' = ds_etl_run ds"
  shows "current_run ds' db' = current_run ds db"
  using assms by (simp add: current_run_def split: option.splits)







lemma current_run_other [simp]:
  "current_run ds (create_or_update_checkpoint ds' v st n em now db) = current_run ds db"
  "current_run ds (mark_processed ds' raws failed db) = current_run ds db"
  "current_run ds (snd (save_raw_data ds' records now db)) = current_run ds db"
  "current_run ds (db \<lparr> unified_items := rows, journal := ops \<rparr>) = current_run ds db"
  by (simp_all add: current_run_def split: option.splits)











section \<open>The life of a run row\<close>

lemma map_update_last:
  assumes "rid \<notin> er_id ` set old" and "er_id row0 = rid"
  shows "map (\<lambda>r. if er_id r = rid then g r else r) (old @ [row0]) = old @ [g row0]"
  using assms by (induction old) auto



lemma etl_runs_complete_cong:
  assumes "etl_runs db' = etl_runs db"
  shows "etl_runs (complete_etl_run ds st a b c wm em now db') =
         etl_runs (complete_etl_run ds st a b c wm em now db)"
  using assms by (simp add: complete_etl_run_def split: option.splits)














end
